theory Spec2Isabelle
  imports Complex_Main "HOL-Library.Word" "HOL-Library.Monad_Syntax"
begin

section \<open>Go values and runtime faults\<close>

text \<open>
  The exporter is a single Go file, \<^verbatim>\<open>main.go\<close>. Its decoder works on a byte slice, and the
  only way it can fail is a runtime panic of Go (index out of range, slice bounds out of range,
  nil dereference); its handler can also fail by a panic of the metrics library. A computation
  that may panic has an \<open>option\<close> type here: \<open>None\<close> is the panic, \<open>Some v\<close> the normal
  result \<open>v\<close>. Go's \<^verbatim>\<open>int\<close> is \<open>int\<close>: every value the program
  computes is below the length of a slice plus 257, far from the 64-bit range. A
  \<^verbatim>\<open>float64\<close> measurement is the real number it stands for: the program only converts
  integers below 65536 to \<^verbatim>\<open>float64\<close>, divides them by 10, and compares with the constant
  \<^verbatim>\<open>-99.9\<close>.
\<close>

type_synonym byte = "8 word"

definition goIndex :: "'a list \<Rightarrow> int \<Rightarrow> 'a option" where
  \<comment> \<open>\<^verbatim>\<open>xs[i]\<close>: panics unless \<open>0 \<le> i < len(xs)\<close>.\<close>
  "goIndex xs i = (if 0 \<le> i \<and> i < int (length xs) then Some (xs ! nat i) else None)"

definition goSlice :: "'a list \<Rightarrow> 'a list \<Rightarrow> int \<Rightarrow> int \<Rightarrow> 'a list option" where
  \<comment> \<open>\<^verbatim>\<open>xs[lo:hi]\<close> on a slice \<open>xs\<close> whose backing array continues with \<open>slack\<close>: Go bounds a
      slice expression on a slice by the capacity, \<open>0 \<le> lo \<le> hi \<le> cap(xs)\<close>, not by the length,
      and the result shows the bytes of the backing array.\<close>
  "goSlice xs slack lo hi =
     (if 0 \<le> lo \<and> lo \<le> hi \<and> hi \<le> int (length xs + length slack)
      then Some (take (nat (hi - lo)) (drop (nat lo) (xs @ slack)))
      else None)"

definition u8 :: "byte list \<Rightarrow> int \<Rightarrow> int option" where
  \<comment> \<open>\<^verbatim>\<open>int(advData[i])\<close>\<close>
  "u8 advData i = map_option uint (goIndex advData i)"

definition shiftAdd :: "byte list \<Rightarrow> int \<Rightarrow> int \<Rightarrow> int option" where
  \<comment> \<open>\<^verbatim>\<open>(int(advData[i])<<8)+int(advData[j])\<close>\<close>
  "shiftAdd advData i j = do {
     h \<leftarrow> u8 advData i;
     l \<leftarrow> u8 advData j;
     Some (push_bit 8 h + l)
   }"

definition byteIs :: "byte list \<Rightarrow> int \<Rightarrow> byte \<Rightarrow> bool option" where
  \<comment> \<open>\<^verbatim>\<open>advData[i] == byte(v)\<close>\<close>
  "byteIs advData i v = map_option (\<lambda>b. b = v) (goIndex advData i)"

definition andAlso :: "bool \<Rightarrow> bool option \<Rightarrow> bool option" where
  \<comment> \<open>\<^verbatim>\<open>c && e\<close>: the right operand is evaluated only when the left one is true.\<close>
  "andAlso c e = (if c then e else Some False)"

section \<open>The data model\<close>

record SensorData =
  ID :: int
  Type :: int
  Model :: string
  ModelID :: int
  TemperatureCelcius :: real
  HumidityPercent :: real
  BatteryPercent :: real

definition undefinedF :: real where
  \<comment> \<open>\<^verbatim>\<open>const undefined = -99.9\<close>\<close>
  "undefinedF = - 99.9"

text \<open>
  \<^verbatim>\<open>ble.Advertisement\<close> belongs to the Bluetooth library, which is not part of the
  repository. The handler calls \<^verbatim>\<open>Addr().String()\<close>, \<^verbatim>\<open>RSSI()\<close>, \<^verbatim>\<open>Connectable()\<close>,
  \<^verbatim>\<open>LocalName()\<close> and \<^verbatim>\<open>Data()\<close>. \<open>Data\<close> is the slice \<^verbatim>\<open>Data()\<close> returns, up to its
  length; \<open>DataSlack\<close> is what the backing array of that slice holds after it, so that
  \<open>cap(a.Data()) = length (Data a) + length (DataSlack a)\<close>. How much slack there is is the
  library's business; every theorem below holds for any.
\<close>

record Advertisement =
  Addr :: string
  RSSI :: int
  Connectable :: bool
  LocalName :: string
  Data :: "byte list"
  DataSlack :: "byte list"

section \<open>The decoder: \<^verbatim>\<open>parseAdvertisementReportData\<close>\<close>

definition xiaomiHeader :: "SensorData \<Rightarrow> byte list \<Rightarrow> (SensorData \<times> int) option" where
  \<comment> \<open>the first part of the branch for \<^verbatim>\<open>{0x95, 0xFE}\<close>, lines 187 to 197: the record and
      \<^verbatim>\<open>data_length\<close>\<close>
  "xiaomiHeader sensorData advData = do {
     let s1 = sensorData\<lparr>Model := ''Error''\<rparr>;
     ty \<leftarrow> u8 advData 13;
     let s2 = s1\<lparr>Type := ty\<rparr>;
     sid \<leftarrow> u8 advData 6;
     let s3 = s2\<lparr>ID := sid\<rparr>;
     mid \<leftarrow> shiftAdd advData 5 4;
     let s4 = s3\<lparr>ModelID := mid\<rparr>;
     data_length \<leftarrow> u8 advData 15;
     Some (if ModelID s4 = 0x01aa then s4\<lparr>Model := ''LYWSDCGQ''\<rparr>
           else if ModelID s4 = 0x045b then s4\<lparr>Model := ''Unsupported''\<rparr>
           else s4,
           data_length)
   }"

definition xiaomiFrame :: "SensorData \<Rightarrow> int \<Rightarrow> int \<Rightarrow> byte list \<Rightarrow> SensorData option" where
  \<comment> \<open>the second part of that branch, lines 198 to 223\<close>
  "xiaomiFrame sensorData data_length advDataLength advData =
    (if Type sensorData = 0x0D then
       (if data_length = 4 \<and> advDataLength = 21 then do {
          t \<leftarrow> shiftAdd advData 17 16;
          h \<leftarrow> shiftAdd advData 19 18;
          Some (sensorData\<lparr>TemperatureCelcius := real_of_int t / 10,
                            HumidityPercent := real_of_int h / 10\<rparr>)
        } else if data_length = 4 \<and> advDataLength = 25 then do {
          t \<leftarrow> shiftAdd advData 17 16;
          h \<leftarrow> shiftAdd advData 19 18;
          b \<leftarrow> u8 advData 23;
          Some (sensorData\<lparr>TemperatureCelcius := real_of_int t / 10,
                            HumidityPercent := real_of_int h / 10,
                            BatteryPercent := real_of_int b\<rparr>)
        } else Some sensorData)
     else if Type sensorData = 0x0A \<and> data_length = 1 \<and> advDataLength = 18 then do {
       b \<leftarrow> u8 advData 16;
       Some (sensorData\<lparr>BatteryPercent := real_of_int b\<rparr>)
     }
     else if Type sensorData = 0x06 then
       (if data_length = 2 \<and> advDataLength = 19 then do {
          h \<leftarrow> shiftAdd advData 17 16;
          Some (sensorData\<lparr>HumidityPercent := real_of_int h / 10\<rparr>)
        } else if data_length = 2 \<and> advDataLength = 23 then do {
          h \<leftarrow> shiftAdd advData 17 16;
          b \<leftarrow> u8 advData 21;
          Some (sensorData\<lparr>HumidityPercent := real_of_int h / 10,
                            BatteryPercent := real_of_int b\<rparr>)
        } else Some sensorData)
     else if Type sensorData = 0x04 then
       (if data_length = 2 \<and> advDataLength = 19 then do {
          t \<leftarrow> shiftAdd advData 17 16;
          Some (sensorData\<lparr>TemperatureCelcius := real_of_int t / 10\<rparr>)
        } else if data_length = 2 \<and> advDataLength = 23 then do {
          t \<leftarrow> shiftAdd advData 17 16;
          b \<leftarrow> u8 advData 21;
          Some (sensorData\<lparr>TemperatureCelcius := real_of_int t / 10,
                            BatteryPercent := real_of_int b\<rparr>)
        } else Some sensorData)
     else Some sensorData)"

definition decodeXiaomi :: "SensorData \<Rightarrow> int \<Rightarrow> byte list \<Rightarrow> SensorData option" where
  \<comment> \<open>the body of the branch for \<^verbatim>\<open>{0x95, 0xFE}\<close>, lines 187 to 223\<close>
  "decodeXiaomi sensorData advDataLength advData = do {
     (sensorData', data_length) \<leftarrow> xiaomiHeader sensorData advData;
     xiaomiFrame sensorData' data_length advDataLength advData
   }"

definition decodeATC :: "SensorData \<Rightarrow> byte list \<Rightarrow> SensorData option" where
  \<comment> \<open>the body of the branch for \<^verbatim>\<open>{0x1A, 0x18}\<close>, lines 225 to 229\<close>
  "decodeATC sensorData advData = do {
     sid \<leftarrow> u8 advData 14;
     let s1 = sensorData\<lparr>ID := sid\<rparr>;
     let s2 = s1\<lparr>Model := ''ATC''\<rparr>;
     t \<leftarrow> shiftAdd advData 8 9;
     let s3 = s2\<lparr>TemperatureCelcius := real_of_int t / 10\<rparr>;
     h \<leftarrow> u8 advData 10;
     let s4 = s3\<lparr>HumidityPercent := real_of_int h\<rparr>;
     b \<leftarrow> u8 advData 11;
     Some (s4\<lparr>BatteryPercent := real_of_int b\<rparr>)
   }"

definition decodeServiceData :: "SensorData \<Rightarrow> int \<Rightarrow> byte list \<Rightarrow> SensorData option" where
  \<comment> \<open>the body of \<^verbatim>\<open>if advDataModel == 0x16\<close>, lines 186 to 230\<close>
  "decodeServiceData sensorData advDataLength advData = do {
     xiaomi \<leftarrow> andAlso (advDataLength \<ge> 18) (do {
                 c \<leftarrow> byteIs advData 0 0x95;
                 andAlso c (byteIs advData 1 0xFE)
               });
     if xiaomi then decodeXiaomi sensorData advDataLength advData
     else do {
       atc \<leftarrow> andAlso (advDataLength \<ge> 16) (do {
                c \<leftarrow> byteIs advData 0 0x1A;
                andAlso c (byteIs advData 1 0x18)
              });
       if atc then decodeATC sensorData advData else Some sensorData
     }
   }"

definition loopBody ::
  "byte list \<Rightarrow> byte list \<Rightarrow> SensorData \<Rightarrow> int \<Rightarrow> (SensorData \<times> int) option" where
  \<comment> \<open>one turn of the \<^verbatim>\<open>for\<close> loop, lines 182 to 232: the new record and the new
      \<^verbatim>\<open>packetPointer\<close>\<close>
  "loopBody advRawData slack sensorData packetPointer = do {
     advDataLength \<leftarrow> u8 advRawData packetPointer;
     advDataModel \<leftarrow> u8 advRawData (packetPointer + 1);
     advData \<leftarrow> goSlice advRawData slack (packetPointer + 2) (packetPointer + advDataLength + 2);
     sensorData' \<leftarrow> (if advDataModel = 0x16
                     then decodeServiceData sensorData advDataLength advData
                     else Some sensorData);
     Some (sensorData', packetPointer + advDataLength + 1)
   }"

function parseLoop :: "byte list \<Rightarrow> byte list \<Rightarrow> SensorData \<Rightarrow> int \<Rightarrow> SensorData option" where
  "parseLoop advRawData slack sensorData packetPointer =
     (if packetPointer < int (length advRawData) - 1
      then (case loopBody advRawData slack sensorData packetPointer of
              None \<Rightarrow> None
            | Some (sensorData', packetPointer') \<Rightarrow>
                parseLoop advRawData slack sensorData' packetPointer')
      else Some sensorData)"
  by pat_completeness auto
termination
proof (relation "measure (\<lambda>(advRawData, slack, sensorData, packetPointer).
                   nat (int (length advRawData) - packetPointer))")
  show "wf (measure (\<lambda>(advRawData :: byte list, slack :: byte list, sensorData :: SensorData,
                       packetPointer). nat (int (length advRawData) - packetPointer)))"
    by simp
next
  fix advRawData slack :: "byte list" and sensorData :: SensorData and packetPointer :: int
    and x2 :: "SensorData \<times> int" and sensorData' :: SensorData and packetPointer' :: int
  assume guard: "packetPointer < int (length advRawData) - 1"
    and body: "loopBody advRawData slack sensorData packetPointer = Some x2"
    and x2: "(sensorData', packetPointer') = x2"
  from body x2 have "packetPointer < packetPointer'"
    by (auto simp: loopBody_def u8_def split: bind_splits)
  with guard
  show "((advRawData, slack, sensorData', packetPointer'),
         (advRawData, slack, sensorData, packetPointer))
        \<in> measure (\<lambda>(advRawData, slack, sensorData, packetPointer).
                     nat (int (length advRawData) - packetPointer))"
    by simp
qed

declare parseLoop.simps [simp del]

definition newSensorData :: SensorData where
  \<comment> \<open>\<^verbatim>\<open>&SensorData{}\<close> after lines 174 to 177\<close>
  "newSensorData = \<lparr>ID = 0, Type = 0, Model = ''Unknown'', ModelID = 0,
     TemperatureCelcius = undefinedF, HumidityPercent = undefinedF,
     BatteryPercent = undefinedF\<rparr>"

definition parseAdvertisementReportData ::
  "Advertisement \<Rightarrow> (SensorData option \<times> string option) option" where
  \<comment> \<open>The Go function returns \<^verbatim>\<open>(*SensorData, error)\<close>: a pointer that may be nil and an
      error that may be nil, both \<open>option\<close>s here; the outer \<open>option\<close> is the panic.\<close>
  "parseAdvertisementReportData a = do {
     sensorData \<leftarrow> parseLoop (Data a) (DataSlack a) newSensorData 0;
     Some (Some sensorData, None)
   }"

section \<open>The handler: \<^verbatim>\<open>advScanHandler\<close>\<close>

text \<open>
  The global variables of the program and the metrics it registers are one record. A Go map is
  a partial function; reading a missing key gives the zero value of the value type. A label set
  \<^verbatim>\<open>{"mac", "name", "model"}\<close> is a triple; a gauge or counter vector is a map from label
  triples to values, \<^verbatim>\<open>With(label)\<close> making the child at 0 when there is none (or
  panicking, see \<open>With\<close> below). What
  \<^verbatim>\<open>log.Printf\<close> prints is kept as a list of lines.
\<close>

type_synonym labels = "string \<times> string \<times> string"

datatype LogLine =
    LogCannotParse string
  | LogSensor string string int real real real int int int string string
  | LogRaw string string int "byte list" int string string
  | LogOpenFailed string
  | LogParseFailed string
  | LogLoaded int

record Globals =
  flagVerbose :: bool
  flagDebug :: bool
  discoverMap :: "string \<rightharpoonup> bool"
  timeOutMap :: "string \<rightharpoonup> int"
  namesMap :: "string \<rightharpoonup> string"
  metricsAdvertisementCount :: nat
  metricsAdvertisementSupportedCount :: nat
  metricsDeviceCount :: nat
  metricsDeviceSupportedCount :: nat
  metricsDeviceTemperatureGauge :: "labels \<rightharpoonup> real"
  metricsDeviceHumidityGauge :: "labels \<rightharpoonup> real"
  metricsDeviceBatteryGauge :: "labels \<rightharpoonup> real"
  metricsDeviceSignalGauge :: "labels \<rightharpoonup> real"
  metricsDeviceAdvertisementCount :: "labels \<rightharpoonup> nat"
  metricsDeviceAdvertisementLastSeenGauge :: "labels \<rightharpoonup> real"
  logged :: "LogLine list"

definition discovered :: "Globals \<Rightarrow> string \<Rightarrow> bool" where
  \<comment> \<open>\<^verbatim>\<open>discoverMap[mac]\<close>\<close>
  "discovered g mac = (case discoverMap g mac of None \<Rightarrow> False | Some b \<Rightarrow> b)"

definition getMacName :: "Globals \<Rightarrow> string \<Rightarrow> string" where
  "getMacName g mac = (case namesMap g mac of None \<Rightarrow> [] | Some n \<Rightarrow> n)"

definition shouldEmitDetailedLog :: "Globals \<Rightarrow> Advertisement \<Rightarrow> bool" where
  \<comment> \<open>\<^verbatim>\<open>!discoverMap[a.Addr().String()] || flagDebug\<close>, the condition of lines 127 and 153\<close>
  "shouldEmitDetailedLog g a = (\<not> discovered g (Addr a) \<or> flagDebug g)"

definition incAt :: "(labels \<rightharpoonup> nat) \<Rightarrow> labels \<Rightarrow> (labels \<rightharpoonup> nat)" where
  \<comment> \<open>\<^verbatim>\<open>vec.With(label).Inc()\<close>\<close>
  "incAt vec label = vec(label \<mapsto> (case vec label of None \<Rightarrow> 0 | Some c \<Rightarrow> c) + 1)"

text \<open>
  The metric vectors belong to the Prometheus client library. Their \<^verbatim>\<open>With(labels)\<close> panics
  when \<^verbatim>\<open>GetMetricWith\<close> reports an error, and with the three label names of the program
  the only error is a label value that is not valid UTF-8 (\<^verbatim>\<open>utf8.ValidString\<close> of Go's
  library). The address comes from the Bluetooth library and the name from the names file, as
  it is.
\<close>

definition utf8Cont :: "nat \<Rightarrow> bool" where
  \<comment> \<open>a continuation byte\<close>
  "utf8Cont b = (0x80 \<le> b \<and> b \<le> 0xBF)"

fun validBytes :: "nat list \<Rightarrow> bool" where
  \<comment> \<open>well-formed UTF-8: no overlong form, no surrogate, nothing above \<^verbatim>\<open>U+10FFFF\<close>\<close>
  "validBytes [] = True"
| "validBytes (b # bs) =
     (if b < 0x80 then validBytes bs
      else if 0xC2 \<le> b \<and> b \<le> 0xDF then
        (case bs of
           c1 # r \<Rightarrow> utf8Cont c1 \<and> validBytes r
         | _ \<Rightarrow> False)
      else if 0xE0 \<le> b \<and> b \<le> 0xEF then
        (case bs of
           c1 # c2 # r \<Rightarrow>
             (if b = 0xE0 then 0xA0 \<le> c1 \<and> c1 \<le> 0xBF
              else if b = 0xED then 0x80 \<le> c1 \<and> c1 \<le> 0x9F
              else utf8Cont c1)
             \<and> utf8Cont c2 \<and> validBytes r
         | _ \<Rightarrow> False)
      else if 0xF0 \<le> b \<and> b \<le> 0xF4 then
        (case bs of
           c1 # c2 # c3 # r \<Rightarrow>
             (if b = 0xF0 then 0x90 \<le> c1 \<and> c1 \<le> 0xBF
              else if b = 0xF4 then 0x80 \<le> c1 \<and> c1 \<le> 0x8F
              else utf8Cont c1)
             \<and> utf8Cont c2 \<and> utf8Cont c3 \<and> validBytes r
         | _ \<Rightarrow> False)
      else False)"

definition validUTF8 :: "string \<Rightarrow> bool" where
  \<comment> \<open>\<^verbatim>\<open>utf8.ValidString(s)\<close>\<close>
  "validUTF8 s = validBytes (map of_char s)"

definition validLabelValues :: "labels \<Rightarrow> bool" where
  "validLabelValues label =
     (case label of (mac, name, model) \<Rightarrow> validUTF8 mac \<and> validUTF8 name \<and> validUTF8 model)"

definition With :: "labels \<Rightarrow> labels option" where
  \<comment> \<open>\<^verbatim>\<open>vec.With(label)\<close>: the child for the label set, or the panic\<close>
  "With label = (if validLabelValues label then Some label else None)"

definition publish ::
  "Globals \<Rightarrow> Advertisement \<Rightarrow> string \<Rightarrow> SensorData \<Rightarrow> int \<Rightarrow> Globals option" where
  \<comment> \<open>lines 135 to 148, the body of \<^verbatim>\<open>if sensorData.Model != "Unknown"\<close>\<close>
  "publish g a name sensorData now = do {
     let label = (Addr a, name, Model sensorData);
     g1 \<leftarrow> (if TemperatureCelcius sensorData \<noteq> undefinedF
            then do {
              l \<leftarrow> With label;
              Some (g\<lparr>metricsDeviceTemperatureGauge :=
                         (metricsDeviceTemperatureGauge g)(l \<mapsto> TemperatureCelcius sensorData)\<rparr>)
            } else Some g);
     g2 \<leftarrow> (if HumidityPercent sensorData \<noteq> undefinedF
            then do {
              l \<leftarrow> With label;
              Some (g1\<lparr>metricsDeviceHumidityGauge :=
                          (metricsDeviceHumidityGauge g1)(l \<mapsto> HumidityPercent sensorData)\<rparr>)
            } else Some g1);
     g3 \<leftarrow> (if BatteryPercent sensorData \<noteq> undefinedF
            then do {
              l \<leftarrow> With label;
              Some (g2\<lparr>metricsDeviceBatteryGauge :=
                          (metricsDeviceBatteryGauge g2)(l \<mapsto> BatteryPercent sensorData)\<rparr>)
            } else Some g2);
     l4 \<leftarrow> With label;
     let g4 = g3\<lparr>metricsDeviceAdvertisementCount := incAt (metricsDeviceAdvertisementCount g3) l4\<rparr>;
     l5 \<leftarrow> With label;
     let g5 = g4\<lparr>metricsDeviceSignalGauge :=
                    (metricsDeviceSignalGauge g4)(l5 \<mapsto> real_of_int (RSSI a))\<rparr>;
     l6 \<leftarrow> With label;
     let g6 = g5\<lparr>metricsDeviceAdvertisementLastSeenGauge :=
                    (metricsDeviceAdvertisementLastSeenGauge g5)(l6 \<mapsto> real_of_int now)\<rparr>;
     Some (g6\<lparr>metricsAdvertisementSupportedCount := metricsAdvertisementSupportedCount g6 + 1\<rparr>)
   }"

definition firstSighting ::
  "Globals \<Rightarrow> Advertisement \<Rightarrow> string \<Rightarrow> string \<Rightarrow> SensorData option \<Rightarrow> Globals option" where
  \<comment> \<open>lines 154 to 168, the body of the second \<^verbatim>\<open>if !discoverMap[...] || flagDebug\<close>\<close>
  "firstSighting g a name flag_connectable sensorData = do {
     g1 \<leftarrow> (if sensorData \<noteq> None \<and> Model (the sensorData) \<noteq> ''Unknown''
               \<and> Model (the sensorData) \<noteq> ''Error'' \<and> Model (the sensorData) \<noteq> ''Unsupported''
            then do {
              sd \<leftarrow> sensorData;
              let g' = g\<lparr>logged := logged g @ [LogSensor (Addr a) name (RSSI a)
                          (TemperatureCelcius sd) (HumidityPercent sd) (BatteryPercent sd)
                          (ModelID sd) (ID sd) (Type sd) flag_connectable (Model sd)]\<rparr>;
              Some (g'\<lparr>metricsDeviceSupportedCount := metricsDeviceSupportedCount g' + 1\<rparr>)
            } else if flagVerbose g then do {
              sd \<leftarrow> sensorData;
              Some (g\<lparr>logged := logged g @ [LogRaw (Addr a) (LocalName a) (RSSI a) (Data a)
                          (int (length (Data a))) flag_connectable (Model sd)]\<rparr>)
            } else Some g);
     let g2 = g1\<lparr>discoverMap := (discoverMap g1)(Addr a \<mapsto> True)\<rparr>;
     Some (g2\<lparr>metricsDeviceCount := metricsDeviceCount g2 + 1\<rparr>)
   }"

definition advScanHandler :: "Globals \<Rightarrow> Advertisement \<Rightarrow> int \<Rightarrow> int \<Rightarrow> Globals option" where
  \<comment> \<open>\<open>now1\<close> and \<open>now2\<close> are what \<^verbatim>\<open>time.Now().Unix()\<close> returns at lines 147 and 150.\<close>
  "advScanHandler g a now1 now2 = do {
     let flag_connectable = (if Connectable a then ''Connectable'' else ''NotConnectable'');
     (sensorData, err) \<leftarrow> parseAdvertisementReportData a;
     case err of
       Some e \<Rightarrow>
         Some (if shouldEmitDetailedLog g a
               then g\<lparr>logged := logged g @ [LogCannotParse e],
                      discoverMap := (discoverMap g)(Addr a \<mapsto> True)\<rparr>
               else g)
     | None \<Rightarrow> do {
         let name = getMacName g (Addr a);
         sd \<leftarrow> sensorData;
         g1 \<leftarrow> (if Model sd \<noteq> ''Unknown'' then publish g a name sd now1 else Some g);
         let g2 = g1\<lparr>timeOutMap := (timeOutMap g1)(Addr a \<mapsto> now2)\<rparr>;
         let g3 = g2\<lparr>metricsAdvertisementCount := metricsAdvertisementCount g2 + 1\<rparr>;
         if shouldEmitDetailedLog g3 a
         then firstSighting g3 a name flag_connectable sensorData
         else Some g3
       }
   }"

text \<open>
  The scanner, which is outside the repository, calls the handler for one advertisement after
  the other; a panic in the handler ends the process.
\<close>

fun scan :: "Globals \<Rightarrow> (Advertisement \<times> int \<times> int) list \<Rightarrow> Globals option" where
  "scan g [] = Some g"
| "scan g ((a, now1, now2) # rest) =
     (case advScanHandler g a now1 now2 of None \<Rightarrow> None | Some g' \<Rightarrow> scan g' rest)"

definition startGlobals :: "bool \<Rightarrow> bool \<Rightarrow> Globals" where
  \<comment> \<open>the globals at program start, after \<^verbatim>\<open>parseFlags\<close>: empty maps, metrics at zero\<close>
  "startGlobals verbose debug = \<lparr>flagVerbose = verbose \<or> debug, flagDebug = debug,
     discoverMap = Map.empty, timeOutMap = Map.empty, namesMap = Map.empty,
     metricsAdvertisementCount = 0, metricsAdvertisementSupportedCount = 0,
     metricsDeviceCount = 0, metricsDeviceSupportedCount = 0,
     metricsDeviceTemperatureGauge = Map.empty, metricsDeviceHumidityGauge = Map.empty,
     metricsDeviceBatteryGauge = Map.empty, metricsDeviceSignalGauge = Map.empty,
     metricsDeviceAdvertisementCount = Map.empty,
     metricsDeviceAdvertisementLastSeenGauge = Map.empty, logged = []\<rparr>"

section \<open>The names file: \<^verbatim>\<open>loadNamesCSVFile\<close>\<close>

text \<open>
  \<^verbatim>\<open>os.Open\<close> and \<^verbatim>\<open>csv.NewReader(f).ReadAll()\<close> are Go's library. What they give the
  function is its input here: the file does not open, or the reader reports an error, or it
  returns the records. \<^verbatim>\<open>strings.ToLower\<close> is the parameter \<open>toLower\<close>.
\<close>

datatype NamesFile = OpenError string | CsvError string | CsvLines "string list list"

fun loadLines ::
  "(string \<Rightarrow> string) \<Rightarrow> (string \<rightharpoonup> string) \<Rightarrow> int \<Rightarrow> string list list
     \<Rightarrow> ((string \<rightharpoonup> string) \<times> int) option" where
  "loadLines toLower names count [] = Some (names, count)"
| "loadLines toLower names count (line # rest) =
     (case goIndex line 0 of None \<Rightarrow> None
      | Some mac \<Rightarrow>
         (case goIndex line 1 of None \<Rightarrow> None
          | Some name \<Rightarrow> loadLines toLower (names(toLower mac \<mapsto> name)) (count + 1) rest))"

definition loadNamesCSVFile ::
  "(string \<Rightarrow> string) \<Rightarrow> Globals \<Rightarrow> NamesFile \<Rightarrow> Globals option" where
  "loadNamesCSVFile toLower g file =
     (case file of
        OpenError e \<Rightarrow> Some (g\<lparr>logged := logged g @ [LogOpenFailed e]\<rparr>)
      | CsvError e \<Rightarrow> Some (g\<lparr>logged := logged g @ [LogParseFailed e]\<rparr>)
      | CsvLines csvLines \<Rightarrow>
          (case loadLines toLower (namesMap g) 0 csvLines of
             None \<Rightarrow> None
           | Some (names, count) \<Rightarrow>
               Some (g\<lparr>namesMap := names, logged := logged g @ [LogLoaded count]\<rparr>)))"

section \<open>Advertisements used as examples\<close>

definition atcAdvertisement :: Advertisement where
  \<comment> \<open>a flags element, then the service data of a thermometer with the ATC firmware:
      temperature \<^verbatim>\<open>00 F4\<close>, humidity \<^verbatim>\<open>3C\<close>, battery \<^verbatim>\<open>52\<close>; one more byte in the
      backing array\<close>
  "atcAdvertisement = \<lparr>Addr = ''a4:c1:38:d0:2c:ec'', RSSI = - 46, Connectable = False,
     LocalName = [],
     Data = [0x02, 0x01, 0x06,
             0x10, 0x16, 0x1A, 0x18, 0xA4, 0xC1, 0x38, 0xD0, 0x2C, 0xEC,
             0x00, 0xF4, 0x3C, 0x52, 0x0B, 0x3A, 0x07],
     DataSlack = [0xD2]\<rparr>"

definition atcElement :: "byte list" where
  \<comment> \<open>\<^verbatim>\<open>advData\<close> for the service-data element of \<open>atcAdvertisement\<close>: sixteen bytes from the
      signature on\<close>
  "atcElement = [0x1A, 0x18, 0xA4, 0xC1, 0x38, 0xD0, 0x2C, 0xEC,
                 0x00, 0xF4, 0x3C, 0x52, 0x0B, 0x3A, 0x07, 0xD2]"

definition xiaomiElement :: "byte list" where
  \<comment> \<open>\<^verbatim>\<open>advData\<close> for the element of \<open>xiaomiAdvertisement\<close>: twenty-one bytes\<close>
  "xiaomiElement = [0x95, 0xFE, 0x50, 0x20, 0xAA, 0x01, 0x2A,
             0xEC, 0x2C, 0xD0, 0xA8, 0x65, 0x4C, 0x0D, 0x10, 0x04,
             0xE7, 0x00, 0xF4, 0x01, 0xBA]"

definition truncatedAdvertisement :: Advertisement where
  \<comment> \<open>a frame cut after four bytes: the element says it has ten\<close>
  "truncatedAdvertisement = \<lparr>Addr = ''4c:65:a8:d0:2c:ec'', RSSI = - 70, Connectable = False,
     LocalName = [], Data = [0x0A, 0x16, 0x95, 0xFE], DataSlack = [0xBA]\<rparr>"

definition atcFrostAdvertisement :: Advertisement where
  \<comment> \<open>the same thermometer below zero: the firmware sends \<^verbatim>\<open>FF F6\<close>, minus ten tenths\<close>
  "atcFrostAdvertisement = \<lparr>Addr = ''a4:c1:38:d0:2c:ec'', RSSI = - 46, Connectable = False,
     LocalName = [],
     Data = [0x10, 0x16, 0x1A, 0x18, 0xA4, 0xC1, 0x38, 0xD0, 0x2C, 0xEC,
             0xFF, 0xF6, 0x3C, 0x52, 0x0B, 0x3A, 0x07],
     DataSlack = [0xD2]\<rparr>"

definition xiaomiAdvertisement :: Advertisement where
  \<comment> \<open>a LYWSDCGQ frame of type \<^verbatim>\<open>0D\<close>: model \<^verbatim>\<open>AA 01\<close>, temperature \<^verbatim>\<open>E7 00\<close> (23.1),
      humidity \<^verbatim>\<open>F4 01\<close> (50.0)\<close>
  "xiaomiAdvertisement = \<lparr>Addr = ''4c:65:a8:d0:2c:ec'', RSSI = - 70, Connectable = False,
     LocalName = [],
     Data = [0x15, 0x16, 0x95, 0xFE, 0x50, 0x20, 0xAA, 0x01, 0x2A,
             0xEC, 0x2C, 0xD0, 0xA8, 0x65, 0x4C, 0x0D, 0x10, 0x04,
             0xE7, 0x00, 0xF4, 0x01],
     DataSlack = [0xBA]\<rparr>"

definition mixedAdvertisement :: Advertisement where
  \<comment> \<open>the ATC element of \<open>atcAdvertisement\<close>, then a Xiaomi element of frame type \<^verbatim>\<open>07\<close>,
      which the decoder has no case for\<close>
  "mixedAdvertisement = \<lparr>Addr = ''a4:c1:38:d0:2c:ec'', RSSI = - 46, Connectable = False,
     LocalName = [],
     Data = [0x10, 0x16, 0x1A, 0x18, 0xA4, 0xC1, 0x38, 0xD0, 0x2C, 0xEC,
             0x00, 0xF4, 0x3C, 0x52, 0x0B, 0x3A, 0x07,
             0x12, 0x16, 0x95, 0xFE, 0x50, 0x20, 0xAA, 0x01, 0x2A,
             0xEC, 0x2C, 0xD0, 0xA8, 0x65, 0x4C, 0x07, 0x10, 0x01, 0x00],
     DataSlack = [0xD2]\<rparr>"

definition shortXiaomiAdvertisement :: Advertisement where
  \<comment> \<open>a service-data element with the Xiaomi signature and five bytes, then the ATC element\<close>
  "shortXiaomiAdvertisement = \<lparr>Addr = ''a4:c1:38:d0:2c:ec'', RSSI = - 46, Connectable = False,
     LocalName = [],
     Data = [0x05, 0x16, 0x95, 0xFE, 0x50, 0x20,
             0x10, 0x16, 0x1A, 0x18, 0xA4, 0xC1, 0x38, 0xD0, 0x2C, 0xEC,
             0x00, 0xF4, 0x3C, 0x52, 0x0B, 0x3A, 0x07],
     DataSlack = [0xD2]\<rparr>"

definition flagsAdvertisement :: Advertisement where
  \<comment> \<open>a flags element and nothing else, from a device the exporter does not know\<close>
  "flagsAdvertisement = \<lparr>Addr = ''c0:ff:ee:00:00:01'', RSSI = - 80, Connectable = True,
     LocalName = [], Data = [0x02, 0x01, 0x06], DataSlack = [0xB0]\<rparr>"

section \<open>Auxiliary definitions for the statements\<close>

definition elementData :: "byte list \<Rightarrow> byte list \<Rightarrow> int \<Rightarrow> byte list" where
  \<comment> \<open>the bytes of \<^verbatim>\<open>advData\<close> for the element that starts at \<^verbatim>\<open>packetPointer\<close>, when the
      slice of line 184 is within the capacity\<close>
  "elementData advRawData slack packetPointer =
     take (nat (uint (advRawData ! nat packetPointer)))
       (drop (nat (packetPointer + 2)) (advRawData @ slack))"

definition decoded :: "Advertisement \<Rightarrow> SensorData option" where
  \<comment> \<open>the record \<^verbatim>\<open>parseAdvertisementReportData\<close> returns with a nil error, if it does\<close>
  "decoded a = (case parseAdvertisementReportData a of
                  Some (Some sensorData, None) \<Rightarrow> Some sensorData
                | _ \<Rightarrow> None)"

definition absentWhenUnknown :: "SensorData \<Rightarrow> bool" where
  \<comment> \<open>an invariant of the loop: a record whose model is still Unknown has no measurement\<close>
  "absentWhenUnknown s = (Model s \<noteq> ''Unknown'' \<or>
     (TemperatureCelcius s = undefinedF \<and> HumidityPercent s = undefinedF
       \<and> BatteryPercent s = undefinedF))"

definition littleEndianU16 :: "byte list \<Rightarrow> nat \<Rightarrow> int" where
  \<comment> \<open>the unsigned 16-bit number at offsets \<open>i\<close> and \<open>i + 1\<close>, least significant byte first\<close>
  "littleEndianU16 d i = uint (d ! i) + 256 * uint (d ! (i + 1))"

definition bigEndianU16 :: "byte list \<Rightarrow> nat \<Rightarrow> int" where
  \<comment> \<open>the unsigned 16-bit number at offsets \<open>i\<close> and \<open>i + 1\<close>, most significant byte first\<close>
  "bigEndianU16 d i = 256 * uint (d ! i) + uint (d ! (i + 1))"

definition bigEndianI16 :: "byte list \<Rightarrow> nat \<Rightarrow> int" where
  \<comment> \<open>the same two bytes read as a signed number in two's complement, the specification's
      \<^verbatim>\<open>big-endian i16\<close>\<close>
  "bigEndianI16 d i = (if bigEndianU16 d i < 32768 then bigEndianU16 d i else bigEndianU16 d i - 65536)"

definition spec_xiaomiTable :: "int \<Rightarrow> int \<Rightarrow> int \<Rightarrow> nat option \<times> nat option \<times> nat option" where
  \<comment> \<open>The decode table of the specification, section 4.2, row by row: for a frame type, a
      sub-payload length and an element length, the offsets of the temperature word, of the
      humidity word and of the battery byte, \<open>None\<close> for a field the row leaves absent.\<close>
  "spec_xiaomiTable frameType subPayloadLength elementLength =
     (if frameType = 0x0D \<and> subPayloadLength = 4 \<and> elementLength = 21 then (Some 16, Some 18, None)
      else if frameType = 0x0D \<and> subPayloadLength = 4 \<and> elementLength = 25 then (Some 16, Some 18, Some 23)
      else if frameType = 0x0A \<and> subPayloadLength = 1 \<and> elementLength = 18 then (None, None, Some 16)
      else if frameType = 0x06 \<and> subPayloadLength = 2 \<and> elementLength = 19 then (None, Some 16, None)
      else if frameType = 0x06 \<and> subPayloadLength = 2 \<and> elementLength = 23 then (None, Some 16, Some 21)
      else if frameType = 0x04 \<and> subPayloadLength = 2 \<and> elementLength = 19 then (Some 16, None, None)
      else if frameType = 0x04 \<and> subPayloadLength = 2 \<and> elementLength = 23 then (Some 16, None, Some 21)
      else (None, None, None))"

definition spec_xiaomiModel :: "int \<Rightarrow> string" where
  \<comment> \<open>The classification of the specification, section 4.2: \<^verbatim>\<open>0x01AA\<close> is LYWSDCGQ,
      \<^verbatim>\<open>0x045B\<close> is Unsupported, anything else stays Error.\<close>
  "spec_xiaomiModel modelID =
     (if modelID = 0x01AA then ''LYWSDCGQ'' else if modelID = 0x045B then ''Unsupported'' else ''Error'')"

definition published :: "Globals \<Rightarrow> Advertisement \<Rightarrow> string \<Rightarrow> SensorData \<Rightarrow> int \<Rightarrow> Globals" where
  \<comment> \<open>the globals after lines 135 to 148 when no \<^verbatim>\<open>With\<close> panics (\<open>publish_eq\<close> below)\<close>
  "published g a name sensorData now =
     (let label = (Addr a, name, Model sensorData);
          g1 = (if TemperatureCelcius sensorData \<noteq> undefinedF
                then g\<lparr>metricsDeviceTemperatureGauge :=
                         (metricsDeviceTemperatureGauge g)(label \<mapsto> TemperatureCelcius sensorData)\<rparr>
                else g);
          g2 = (if HumidityPercent sensorData \<noteq> undefinedF
                then g1\<lparr>metricsDeviceHumidityGauge :=
                          (metricsDeviceHumidityGauge g1)(label \<mapsto> HumidityPercent sensorData)\<rparr>
                else g1);
          g3 = (if BatteryPercent sensorData \<noteq> undefinedF
                then g2\<lparr>metricsDeviceBatteryGauge :=
                          (metricsDeviceBatteryGauge g2)(label \<mapsto> BatteryPercent sensorData)\<rparr>
                else g2);
          g4 = g3\<lparr>metricsDeviceAdvertisementCount := incAt (metricsDeviceAdvertisementCount g3) label\<rparr>;
          g5 = g4\<lparr>metricsDeviceSignalGauge :=
                    (metricsDeviceSignalGauge g4)(label \<mapsto> real_of_int (RSSI a))\<rparr>;
          g6 = g5\<lparr>metricsDeviceAdvertisementLastSeenGauge :=
                    (metricsDeviceAdvertisementLastSeenGauge g5)(label \<mapsto> real_of_int now)\<rparr>
      in g6\<lparr>metricsAdvertisementSupportedCount := metricsAdvertisementSupportedCount g6 + 1\<rparr>)"

definition afterCounting :: "Globals \<Rightarrow> Advertisement \<Rightarrow> SensorData \<Rightarrow> int \<Rightarrow> int \<Rightarrow> Globals" where
  \<comment> \<open>the globals when the handler has reached line 152 with the decoded record\<close>
  "afterCounting g a sensorData now1 now2 =
     (if Model sensorData \<noteq> ''Unknown''
      then published g a (getMacName g (Addr a)) sensorData now1 else g)
       \<lparr>timeOutMap := (timeOutMap g)(Addr a \<mapsto> now2),
        metricsAdvertisementCount := metricsAdvertisementCount g + 1\<rparr>"

definition supported :: "Advertisement \<Rightarrow> bool" where
  \<comment> \<open>the advertisement decodes to a model the handler counts as a supported device, the test
      of line 154\<close>
  "supported a = (case decoded a of None \<Rightarrow> False
     | Some sd \<Rightarrow> Model sd \<noteq> ''Unknown'' \<and> Model sd \<noteq> ''Error'' \<and> Model sd \<noteq> ''Unsupported'')"

definition addresses :: "(Advertisement \<times> int \<times> int) list \<Rightarrow> string set" where
  \<comment> \<open>the distinct addresses of a sequence of advertisements, each with the two clock readings
      of its call\<close>
  "addresses advs = set (map (\<lambda>(a, now1, now2). Addr a) advs)"

definition firstFrom :: "string \<Rightarrow> (Advertisement \<times> int \<times> int) list \<Rightarrow> Advertisement option" where
  \<comment> \<open>the first advertisement of the sequence that comes from \<open>mac\<close>\<close>
  "firstFrom mac advs = map_option fst (find (\<lambda>(a, now1, now2). Addr a = mac) advs)"

definition supportedAddresses :: "(Advertisement \<times> int \<times> int) list \<Rightarrow> string set" where
  \<comment> \<open>the addresses whose first advertisement is supported\<close>
  "supportedAddresses advs =
     Set.filter (\<lambda>mac. case firstFrom mac advs of None \<Rightarrow> False | Some a \<Rightarrow> supported a)
       (addresses advs)"

definition fiveAdvertisements :: "(Advertisement \<times> int \<times> int) list" where
  "fiveAdvertisements =
     [(atcAdvertisement, 1700000000, 1700000000), (xiaomiAdvertisement, 1700000001, 1700000001),
      (atcAdvertisement, 1700000010, 1700000010), (flagsAdvertisement, 1700000011, 1700000011),
      (xiaomiAdvertisement, 1700000012, 1700000012)]"

definition twoAdvertisements :: "(Advertisement \<times> int \<times> int) list" where
  "twoAdvertisements =
     [(atcAdvertisement, 1700000000, 1700000000), (atcAdvertisement, 1700000010, 1700000010)]"

definition scanResponseAdvertisement :: Advertisement where
  \<comment> \<open>the scan response of the thermometer of \<open>atcAdvertisement\<close>: its name and nothing else\<close>
  "scanResponseAdvertisement = \<lparr>Addr = ''a4:c1:38:d0:2c:ec'', RSSI = - 46, Connectable = False,
     LocalName = ''ATC_D02CEC'',
     Data = [0x0B, 0x09, 0x41, 0x54, 0x43, 0x5F, 0x44, 0x30, 0x32, 0x43, 0x45, 0x43],
     DataSlack = [0xD2]\<rparr>"

definition scanResponseThenAtc :: "(Advertisement \<times> int \<times> int) list" where
  "scanResponseThenAtc =
     [(scanResponseAdvertisement, 1700000000, 1700000000),
      (atcAdvertisement, 1700000001, 1700000001)]"

section \<open>Facts about the decoder and the handler\<close>

lemma u8_at: "0 \<le> i \<Longrightarrow> i < int (length d) \<Longrightarrow> u8 d i = Some (uint (d ! nat i))"
  by (simp add: u8_def goIndex_def)

lemma shiftAdd_at:
  "0 \<le> i \<Longrightarrow> i < int (length d) \<Longrightarrow> 0 \<le> j \<Longrightarrow> j < int (length d) \<Longrightarrow>
     shiftAdd d i j = Some (256 * uint (d ! nat i) + uint (d ! nat j))"
  by (simp add: shiftAdd_def u8_at push_bit_eq_mult)

lemma byteIs_at: "0 \<le> i \<Longrightarrow> i < int (length d) \<Longrightarrow> byteIs d i v = Some (d ! nat i = v)"
  by (simp add: byteIs_def goIndex_def)

lemma decodeATC_eq:
  assumes "16 \<le> int (length d)"
  shows "decodeATC s d = Some (s\<lparr>ID := uint (d ! 14), Model := ''ATC'',
            TemperatureCelcius := real_of_int (bigEndianU16 d 8) / 10,
            HumidityPercent := real_of_int (uint (d ! 10)),
            BatteryPercent := real_of_int (uint (d ! 11))\<rparr>)"
  using assms by (simp add: decodeATC_def u8_at shiftAdd_at bigEndianU16_def Let_def)

lemma decodeServiceData_atc:
  assumes "int (length d) = L" "16 \<le> L" "d ! 0 = 0x1A" "d ! 1 = 0x18"
  shows "decodeServiceData s L d = decodeATC s d"
  using assms by (auto simp: decodeServiceData_def andAlso_def byteIs_at)

lemma decodeServiceData_xiaomi:
  assumes "int (length d) = L" "18 \<le> L" "d ! 0 = 0x95" "d ! 1 = 0xFE"
  shows "decodeServiceData s L d = decodeXiaomi s L d"
  using assms by (auto simp: decodeServiceData_def andAlso_def byteIs_at)

lemma decodeServiceData_short:
  assumes "int (length d) = L" "L < 18" "d ! 0 = 0x95"
  shows "decodeServiceData s L d = Some s"
  using assms by (auto simp: decodeServiceData_def andAlso_def byteIs_at)

lemma xiaomiHeader_eq:
  assumes "18 \<le> int (length d)"
  shows "xiaomiHeader s d = Some (s\<lparr>ID := uint (d ! 6), Type := uint (d ! 13),
      Model := spec_xiaomiModel (littleEndianU16 d 4), ModelID := littleEndianU16 d 4\<rparr>, uint (d ! 15))"
  using assms
  by (simp add: xiaomiHeader_def u8_at shiftAdd_at Let_def spec_xiaomiModel_def littleEndianU16_def)

lemma xiaomiFrame_eq:
  assumes len: "int (length d) = L" and gate: "18 \<le> L"
  shows "xiaomiFrame s dl L d =
     (case spec_xiaomiTable (Type s) dl L of (t, h, b) \<Rightarrow>
        Some (s\<lparr>TemperatureCelcius :=
                  (case t of None \<Rightarrow> TemperatureCelcius s
                   | Some i \<Rightarrow> real_of_int (littleEndianU16 d i) / 10),
                HumidityPercent :=
                  (case h of None \<Rightarrow> HumidityPercent s
                   | Some i \<Rightarrow> real_of_int (littleEndianU16 d i) / 10),
                BatteryPercent :=
                  (case b of None \<Rightarrow> BatteryPercent s
                   | Some i \<Rightarrow> real_of_int (uint (d ! i)))\<rparr>))"
proof -
  have t16: "shiftAdd d 17 16 = Some (littleEndianU16 d 16)"
    using len gate by (simp add: shiftAdd_at littleEndianU16_def)
  have h18: "shiftAdd d 19 18 = Some (littleEndianU16 d 18)" if "L = 21 \<or> L = 25"
    using len that by (auto simp: shiftAdd_at littleEndianU16_def)
  have b16: "u8 d 16 = Some (uint (d ! 16))"
    using len gate by (simp add: u8_at)
  have b21: "u8 d 21 = Some (uint (d ! 21))" if "L = 23"
    using len that by (simp add: u8_at)
  have b23: "u8 d 23 = Some (uint (d ! 23))" if "L = 25"
    using len that by (simp add: u8_at)
  consider (a) "Type s = 0x0D" | (b) "Type s = 0x0A" | (c) "Type s = 0x06" | (d) "Type s = 0x04"
    | (e) "Type s \<noteq> 0x0D" "Type s \<noteq> 0x0A" "Type s \<noteq> 0x06" "Type s \<noteq> 0x04"
    by blast
  then show ?thesis
  proof cases
    case a
    then show ?thesis
      by (simp add: xiaomiFrame_def spec_xiaomiTable_def t16 h18 b23)
  next
    case b
    then show ?thesis
      by (simp add: xiaomiFrame_def spec_xiaomiTable_def b16)
  next
    case c
    then show ?thesis
      by (simp add: xiaomiFrame_def spec_xiaomiTable_def t16 b21)
  next
    case d
    then show ?thesis
      by (simp add: xiaomiFrame_def spec_xiaomiTable_def t16 b21)
  next
    case e
    then show ?thesis
      by (simp add: xiaomiFrame_def spec_xiaomiTable_def)
  qed
qed

lemma decodeXiaomi_eq:
  assumes len: "int (length d) = L" and gate: "18 \<le> L"
  shows "decodeXiaomi s L d =
     (case spec_xiaomiTable (uint (d ! 13)) (uint (d ! 15)) L of (t, h, b) \<Rightarrow>
        Some (s\<lparr>ID := uint (d ! 6), Type := uint (d ! 13),
                Model := spec_xiaomiModel (littleEndianU16 d 4),
                ModelID := littleEndianU16 d 4,
                TemperatureCelcius :=
                  (case t of None \<Rightarrow> TemperatureCelcius s
                   | Some i \<Rightarrow> real_of_int (littleEndianU16 d i) / 10),
                HumidityPercent :=
                  (case h of None \<Rightarrow> HumidityPercent s
                   | Some i \<Rightarrow> real_of_int (littleEndianU16 d i) / 10),
                BatteryPercent :=
                  (case b of None \<Rightarrow> BatteryPercent s
                   | Some i \<Rightarrow> real_of_int (uint (d ! i)))\<rparr>))"
proof -
  have "18 \<le> int (length d)" using len gate by simp
  then show ?thesis
    by (simp add: decodeXiaomi_def xiaomiHeader_eq xiaomiFrame_eq [OF len gate]
          split: prod.splits option.splits)
qed

lemma length_elementData:
  assumes "0 \<le> pp" "pp + uint (raw ! nat pp) + 2 \<le> int (length raw + length slack)"
  shows "int (length (elementData raw slack pp)) = uint (raw ! nat pp)"
proof -
  have "length (elementData raw slack pp)
          = min (length (raw @ slack) - nat (pp + 2)) (nat (uint (raw ! nat pp)))"
    unfolding elementData_def by (simp only: length_take length_drop min.commute)
  also have "\<dots> = nat (uint (raw ! nat pp))"
    using assms by (simp only: length_append)
  finally show ?thesis by simp
qed

lemma loopBody_eq:
  assumes "0 \<le> pp" "pp < int (length raw) - 1"
    and "pp + uint (raw ! nat pp) + 2 \<le> int (length raw + length slack)"
  shows "loopBody raw slack s pp =
     (if uint (raw ! nat (pp + 1)) = 0x16
      then map_option (\<lambda>r. (r, pp + uint (raw ! nat pp) + 1))
             (decodeServiceData s (uint (raw ! nat pp)) (elementData raw slack pp))
      else Some (s, pp + uint (raw ! nat pp) + 1))"
  using assms
  by (simp add: loopBody_def u8_at goSlice_def elementData_def map_option_case split: option.splits)

lemma real_tenths_not_undefined: "0 \<le> n \<Longrightarrow> real_of_int n / 10 \<noteq> undefinedF"
  by (simp add: undefinedF_def)

lemma real_byte_not_undefined: "real_of_int (uint (b :: byte)) \<noteq> undefinedF"
proof -
  have "0 \<le> uint b" by simp
  then have "0 \<le> real_of_int (uint b)" by (rule of_int_nonneg)
  then show ?thesis unfolding undefinedF_def by linarith
qed

lemma bigEndianU16_nonneg: "0 \<le> bigEndianU16 d i"
  by (simp add: bigEndianU16_def)

lemma littleEndianU16_nonneg: "0 \<le> littleEndianU16 d i"
  by (simp add: littleEndianU16_def)

lemma decodeServiceData_xiaomi_eq:
  assumes len: "int (length d) = L" and gate: "18 \<le> L" and sig: "d ! 0 = 0x95" "d ! 1 = 0xFE"
    and row: "spec_xiaomiTable (uint (d ! 13)) (uint (d ! 15)) L = (t, h, b)"
  shows "decodeServiceData s L d =
        Some (s\<lparr>ID := uint (d ! 6), Type := uint (d ! 13),
                Model := spec_xiaomiModel (littleEndianU16 d 4),
                ModelID := littleEndianU16 d 4,
                TemperatureCelcius :=
                  (case t of None \<Rightarrow> TemperatureCelcius s
                   | Some i \<Rightarrow> real_of_int (littleEndianU16 d i) / 10),
                HumidityPercent :=
                  (case h of None \<Rightarrow> HumidityPercent s
                   | Some i \<Rightarrow> real_of_int (littleEndianU16 d i) / 10),
                BatteryPercent :=
                  (case b of None \<Rightarrow> BatteryPercent s
                   | Some i \<Rightarrow> real_of_int (uint (d ! i)))\<rparr>)"
  by (simp only: decodeServiceData_xiaomi [OF len gate sig] decodeXiaomi_eq [OF len gate] row prod.case)

lemma parse_result:
  "parseAdvertisementReportData a = Some r \<Longrightarrow>
     \<exists>sd. r = (Some sd, None) \<and> parseLoop (Data a) (DataSlack a) newSensorData 0 = Some sd"
  by (auto simp: parseAdvertisementReportData_def split: bind_splits)

lemma loopBody_overrun:
  assumes "int (length advRawData + length slack) < packetPointer + uint (advRawData ! nat packetPointer) + 2"
  shows "loopBody advRawData slack sensorData packetPointer = None"
  using assms by (auto simp: loopBody_def u8_def goIndex_def goSlice_def split: bind_splits)


lemma firstSighting_frame:
  assumes "firstSighting g a name flag_connectable sensorData = Some g'"
  shows "timeOutMap g' = timeOutMap g"
    and "metricsAdvertisementCount g' = metricsAdvertisementCount g"
    and "metricsDeviceTemperatureGauge g' = metricsDeviceTemperatureGauge g"
    and "metricsDeviceHumidityGauge g' = metricsDeviceHumidityGauge g"
    and "metricsDeviceBatteryGauge g' = metricsDeviceBatteryGauge g"
    and "flagDebug g' = flagDebug g"
  using assms
  by (auto simp: firstSighting_def Let_def split: bind_splits if_splits)

lemma publish_eq [code]:
  "publish g a name sd now =
     (if validLabelValues (Addr a, name, Model sd) then Some (published g a name sd now) else None)"
  by (simp add: publish_def published_def With_def Let_def)

lemma published_frame:
  "timeOutMap (published g a name sd now) = timeOutMap g"
  "metricsAdvertisementCount (published g a name sd now) = metricsAdvertisementCount g"
  "discoverMap (published g a name sd now) = discoverMap g"
  "flagDebug (published g a name sd now) = flagDebug g"
  "flagVerbose (published g a name sd now) = flagVerbose g"
  "metricsDeviceCount (published g a name sd now) = metricsDeviceCount g"
  "metricsDeviceSupportedCount (published g a name sd now) = metricsDeviceSupportedCount g"
  by (simp_all add: published_def Let_def)

lemma handler_decoded:
  assumes "parseAdvertisementReportData a = Some (Some sd, None)"
  shows "advScanHandler g a now1 now2 =
           (if Model sd \<noteq> ''Unknown'' \<and> \<not> validLabelValues (Addr a, getMacName g (Addr a), Model sd)
            then None
            else if shouldEmitDetailedLog g a
            then firstSighting (afterCounting g a sd now1 now2) a (getMacName g (Addr a))
                   (if Connectable a then ''Connectable'' else ''NotConnectable'') (Some sd)
            else Some (afterCounting g a sd now1 now2))"
  using assms
  by (auto simp: advScanHandler_def afterCounting_def Let_def shouldEmitDetailedLog_def
        discovered_def published_frame publish_eq)

lemma handler_returned:
  assumes "advScanHandler g a now1 now2 = Some g'"
    and "parseAdvertisementReportData a = Some (Some sd, None)"
  shows "(if shouldEmitDetailedLog g a
          then firstSighting (afterCounting g a sd now1 now2) a (getMacName g (Addr a))
                 (if Connectable a then ''Connectable'' else ''NotConnectable'') (Some sd)
          else Some (afterCounting g a sd now1 now2)) = Some g'"
  using assms(1) unfolding handler_decoded [OF assms(2)]
  by (simp split: if_splits)

lemma xiaomiHeader_model:
  "xiaomiHeader s d = Some (s', dl) \<Longrightarrow> Model s' \<noteq> ''Unknown''"
  by (auto simp: xiaomiHeader_def Let_def split: bind_splits if_splits)

lemma xiaomiFrame_model:
  "xiaomiFrame s dl L d = Some r \<Longrightarrow> Model r = Model s"
  unfolding xiaomiFrame_def
  by (simp split: if_splits bind_splits) auto

lemma decodeXiaomi_model:
  "decodeXiaomi s L d = Some r \<Longrightarrow> Model r \<noteq> ''Unknown''"
proof -
  assume "decodeXiaomi s L d = Some r"
  then obtain s' dl where "xiaomiHeader s d = Some (s', dl)" "xiaomiFrame s' dl L d = Some r"
    by (auto simp: decodeXiaomi_def split: bind_splits)
  then show ?thesis
    using xiaomiHeader_model xiaomiFrame_model by metis
qed

lemma decodeATC_model:
  "decodeATC s d = Some r \<Longrightarrow> Model r \<noteq> ''Unknown''"
  by (auto simp: decodeATC_def Let_def split: bind_splits)

lemma decodeServiceData_absentWhenUnknown:
  assumes "absentWhenUnknown s" "decodeServiceData s L d = Some r"
  shows "absentWhenUnknown r"
  using assms
  by (auto simp: decodeServiceData_def absentWhenUnknown_def split: bind_splits if_splits
      dest: decodeXiaomi_model decodeATC_model)

lemma loopBody_absentWhenUnknown:
  assumes "absentWhenUnknown s" "loopBody raw slack s pp = Some (r, pp')"
  shows "absentWhenUnknown r"
  using assms
  by (auto simp: loopBody_def split: bind_splits if_splits
      dest: decodeServiceData_absentWhenUnknown)

lemma parseLoop_absentWhenUnknown:
  "absentWhenUnknown s \<Longrightarrow> parseLoop raw slack s pp = Some r \<Longrightarrow> absentWhenUnknown r"
proof (induction raw slack s pp rule: parseLoop.induct)
  case (1 advRawData slack sensorData packetPointer)
  show ?case
  proof (cases "packetPointer < int (length advRawData) - 1")
    case False
    with "1.prems" show ?thesis by (simp add: parseLoop.simps)
  next
    case True
    with "1.prems"(2) obtain s' p' where
      b: "loopBody advRawData slack sensorData packetPointer = Some (s', p')"
      and l: "parseLoop advRawData slack s' p' = Some r"
      by (subst (asm) parseLoop.simps) (auto split: option.splits)
    from "1.prems"(1) b have "absentWhenUnknown s'"
      by (rule loopBody_absentWhenUnknown)
    with "1.IH" [OF True b refl] l show ?thesis by simp
  qed
qed

lemma decoded_absentWhenUnknown:
  "decoded a = Some sd \<Longrightarrow> absentWhenUnknown sd"
proof -
  assume "decoded a = Some sd"
  then have "parseLoop (Data a) (DataSlack a) newSensorData 0 = Some sd"
    by (auto simp: decoded_def parseAdvertisementReportData_def split: bind_splits option.splits)
  moreover have "absentWhenUnknown newSensorData"
    by (simp add: absentWhenUnknown_def newSensorData_def)
  ultimately show ?thesis by (rule parseLoop_absentWhenUnknown [rotated])
qed

lemma handler_parses:
  assumes "advScanHandler g a now1 now2 = Some g'"
  obtains sd where "parseAdvertisementReportData a = Some (Some sd, None)" "decoded a = Some sd"
proof -
  from assms have "parseAdvertisementReportData a \<noteq> None"
    by (auto simp: advScanHandler_def split: bind_splits)
  then obtain sd where "parseAdvertisementReportData a = Some (Some sd, None)"
    using parse_result by fastforce
  then show ?thesis using that by (simp add: decoded_def)
qed

lemma published_gauges:
  "metricsDeviceTemperatureGauge (published g a name sd now) =
     (if TemperatureCelcius sd \<noteq> undefinedF
      then (metricsDeviceTemperatureGauge g)((Addr a, name, Model sd) \<mapsto> TemperatureCelcius sd)
      else metricsDeviceTemperatureGauge g)"
  "metricsDeviceHumidityGauge (published g a name sd now) =
     (if HumidityPercent sd \<noteq> undefinedF
      then (metricsDeviceHumidityGauge g)((Addr a, name, Model sd) \<mapsto> HumidityPercent sd)
      else metricsDeviceHumidityGauge g)"
  "metricsDeviceBatteryGauge (published g a name sd now) =
     (if BatteryPercent sd \<noteq> undefinedF
      then (metricsDeviceBatteryGauge g)((Addr a, name, Model sd) \<mapsto> BatteryPercent sd)
      else metricsDeviceBatteryGauge g)"
  by (simp_all add: published_def Let_def)

lemma handler_gauges:
  assumes h: "advScanHandler g a now1 now2 = Some g'" and p: "parseAdvertisementReportData a = Some (Some sd, None)"
  shows "metricsDeviceTemperatureGauge g' =
           metricsDeviceTemperatureGauge (if Model sd \<noteq> ''Unknown''
              then published g a (getMacName g (Addr a)) sd now1 else g)"
    and "metricsDeviceHumidityGauge g' =
           metricsDeviceHumidityGauge (if Model sd \<noteq> ''Unknown''
              then published g a (getMacName g (Addr a)) sd now1 else g)"
    and "metricsDeviceBatteryGauge g' =
           metricsDeviceBatteryGauge (if Model sd \<noteq> ''Unknown''
              then published g a (getMacName g (Addr a)) sd now1 else g)"
proof -
  let ?c = "afterCounting g a sd now1 now2"
  have c: "metricsDeviceTemperatureGauge ?c = metricsDeviceTemperatureGauge (if Model sd \<noteq> ''Unknown''
              then published g a (getMacName g (Addr a)) sd now1 else g)"
    "metricsDeviceHumidityGauge ?c = metricsDeviceHumidityGauge (if Model sd \<noteq> ''Unknown''
              then published g a (getMacName g (Addr a)) sd now1 else g)"
    "metricsDeviceBatteryGauge ?c = metricsDeviceBatteryGauge (if Model sd \<noteq> ''Unknown''
              then published g a (getMacName g (Addr a)) sd now1 else g)"
    by (simp_all add: afterCounting_def)
  from handler_returned [OF h p] have "g' = ?c \<or> firstSighting ?c a (getMacName g (Addr a))
                   (if Connectable a then ''Connectable'' else ''NotConnectable'') (Some sd) = Some g'"
    by (simp split: if_splits)
  then have "metricsDeviceTemperatureGauge g' = metricsDeviceTemperatureGauge ?c
     \<and> metricsDeviceHumidityGauge g' = metricsDeviceHumidityGauge ?c
     \<and> metricsDeviceBatteryGauge g' = metricsDeviceBatteryGauge ?c"
    using firstSighting_frame(3,4,5) by blast
  with c show "metricsDeviceTemperatureGauge g' =
           metricsDeviceTemperatureGauge (if Model sd \<noteq> ''Unknown''
              then published g a (getMacName g (Addr a)) sd now1 else g)"
    and "metricsDeviceHumidityGauge g' =
           metricsDeviceHumidityGauge (if Model sd \<noteq> ''Unknown''
              then published g a (getMacName g (Addr a)) sd now1 else g)"
    and "metricsDeviceBatteryGauge g' =
           metricsDeviceBatteryGauge (if Model sd \<noteq> ''Unknown''
              then published g a (getMacName g (Addr a)) sd now1 else g)"
    by simp_all
qed

lemma handler_tracker:
  assumes "advScanHandler g a now1 now2 = Some g'"
  shows "flagDebug g' = flagDebug g"
    and "discovered g' mac \<longleftrightarrow> discovered g mac \<or> mac = Addr a"
proof -
  from assms obtain sd where p: "parseAdvertisementReportData a = Some (Some sd, None)"
    by (rule handler_parses)
  let ?c = "afterCounting g a sd now1 now2"
  have c: "flagDebug ?c = flagDebug g" "discoverMap ?c = discoverMap g"
    by (simp_all add: afterCounting_def published_frame)
  show "flagDebug g' = flagDebug g"
    using handler_returned [OF assms p] c(1)
    by (auto simp: firstSighting_frame(6) split: if_splits)
  show "discovered g' mac \<longleftrightarrow> discovered g mac \<or> mac = Addr a"
  proof (cases "shouldEmitDetailedLog g a")
    case True
    with handler_returned [OF assms p] have "firstSighting ?c a (getMacName g (Addr a))
                   (if Connectable a then ''Connectable'' else ''NotConnectable'') (Some sd) = Some g'"
      by simp
    then have "discoverMap g' = (discoverMap ?c)(Addr a \<mapsto> True)"
      by (auto simp: firstSighting_def Let_def split: bind_splits if_splits)
    with c(2) show ?thesis
      by (simp add: discovered_def)
  next
    case False
    with handler_returned [OF assms p] have "g' = ?c"
      by simp
    with False c(2) show ?thesis
      by (auto simp: discovered_def shouldEmitDetailedLog_def)
  qed
qed

lemma handler_counts:
  assumes "advScanHandler g a now1 now2 = Some g'"
  shows "metricsDeviceCount g' = metricsDeviceCount g + (if shouldEmitDetailedLog g a then 1 else 0)"
    and "metricsDeviceSupportedCount g' =
           metricsDeviceSupportedCount g + (if shouldEmitDetailedLog g a \<and> supported a then 1 else 0)"
proof -
  from assms obtain sd where p: "parseAdvertisementReportData a = Some (Some sd, None)"
    and d: "decoded a = Some sd"
    by (rule handler_parses)
  let ?c = "afterCounting g a sd now1 now2"
  have c: "metricsDeviceCount ?c = metricsDeviceCount g"
    "metricsDeviceSupportedCount ?c = metricsDeviceSupportedCount g"
    by (simp_all add: afterCounting_def published_frame)
  have "metricsDeviceCount g' = metricsDeviceCount g + (if shouldEmitDetailedLog g a then 1 else 0)
    \<and> metricsDeviceSupportedCount g' =
           metricsDeviceSupportedCount g + (if shouldEmitDetailedLog g a \<and> supported a then 1 else 0)"
  proof (cases "shouldEmitDetailedLog g a")
    case True
    with handler_returned [OF assms p] have "firstSighting ?c a (getMacName g (Addr a))
                   (if Connectable a then ''Connectable'' else ''NotConnectable'') (Some sd) = Some g'"
      by simp
    then have "metricsDeviceCount g' = metricsDeviceCount ?c + 1
      \<and> metricsDeviceSupportedCount g' = metricsDeviceSupportedCount ?c + (if supported a then 1 else 0)"
      using d by (auto simp: firstSighting_def Let_def supported_def split: bind_splits if_splits)
    with True c show ?thesis by simp
  next
    case False
    with handler_returned [OF assms p] have "g' = ?c"
      by simp
    with False c show ?thesis by simp
  qed
  then show "metricsDeviceCount g' = metricsDeviceCount g + (if shouldEmitDetailedLog g a then 1 else 0)"
    and "metricsDeviceSupportedCount g' =
           metricsDeviceSupportedCount g + (if shouldEmitDetailedLog g a \<and> supported a then 1 else 0)"
    by simp_all
qed

lemma addresses_Cons: "addresses ((a, n1, n2) # rest) = insert (Addr a) (addresses rest)"
  by (simp add: addresses_def)

lemma finite_addresses: "finite (addresses advs)"
  by (simp add: addresses_def)

lemma supportedAddresses_subset: "supportedAddresses advs \<subseteq> addresses advs"
  by (auto simp: supportedAddresses_def)

lemma supportedAddresses_Cons:
  "supportedAddresses ((a, n1, n2) # rest) =
     (if supported a then {Addr a} else {}) \<union> (supportedAddresses rest - {Addr a})"
  by (auto simp: supportedAddresses_def firstFrom_def addresses_Cons)

lemma scan_counts:
  assumes "\<not> flagDebug g" "scan g advs = Some g'"
  shows "metricsDeviceCount g' =
           metricsDeviceCount g + card {mac \<in> addresses advs. \<not> discovered g mac}
       \<and> metricsDeviceSupportedCount g' =
           metricsDeviceSupportedCount g + card {mac \<in> supportedAddresses advs. \<not> discovered g mac}"
  using assms
proof (induction advs arbitrary: g)
  case Nil
  then show ?case by (simp add: addresses_def supportedAddresses_def)
next
  case (Cons x rest)
  obtain a n1 n2 where x: "x = (a, n1, n2)" by (cases x)
  from Cons.prems(2) x obtain g1 where h: "advScanHandler g a n1 n2 = Some g1"
    and r: "scan g1 rest = Some g'"
    by (auto split: option.splits)
  have dbg: "\<not> flagDebug g1" using handler_tracker(1) [OF h] Cons.prems(1) by simp
  have disc: "\<And>mac. discovered g1 mac \<longleftrightarrow> discovered g mac \<or> mac = Addr a"
    using handler_tracker(2) [OF h] by simp
  have emit: "shouldEmitDetailedLog g a \<longleftrightarrow> \<not> discovered g (Addr a)"
    using Cons.prems(1) by (simp add: shouldEmitDetailedLog_def)
  note ih = Cons.IH [OF dbg r]
  let ?A = "{mac \<in> addresses rest. \<not> discovered g1 mac}"
  let ?S = "{mac \<in> supportedAddresses rest. \<not> discovered g1 mac}"
  have finA: "finite ?A" using finite_addresses by simp
  have finS: "finite ?S"
    using finite_subset [OF supportedAddresses_subset finite_addresses] by simp
  have notin: "Addr a \<notin> ?A" "Addr a \<notin> ?S" using disc by simp_all
  have A: "{mac \<in> addresses (x # rest). \<not> discovered g mac} =
             (if discovered g (Addr a) then ?A else insert (Addr a) ?A)"
    using disc by (auto simp: x addresses_Cons)
  have S: "{mac \<in> supportedAddresses (x # rest). \<not> discovered g mac} =
             (if \<not> discovered g (Addr a) \<and> supported a then insert (Addr a) ?S else ?S)"
    using disc by (auto simp: x supportedAddresses_Cons)
  have cA: "card {mac \<in> addresses (x # rest). \<not> discovered g mac} =
             (if discovered g (Addr a) then 0 else 1) + card ?A"
    unfolding A using finA notin(1) by simp
  have cS: "card {mac \<in> supportedAddresses (x # rest). \<not> discovered g mac} =
             (if \<not> discovered g (Addr a) \<and> supported a then 1 else 0) + card ?S"
    unfolding S using finS notin(2) by simp
  from ih handler_counts [OF h] emit cA cS show ?case
    by simp
qed

lemma device_counters_debug_off:
  assumes "scan (startGlobals verbose False) advs = Some g'"
  shows "metricsDeviceCount g' = card (addresses advs)
       \<and> metricsDeviceSupportedCount g' = card (supportedAddresses advs)"
proof -
  let ?g = "startGlobals verbose False"
  have d: "\<not> flagDebug ?g" "\<And>mac. \<not> discovered ?g mac"
    "metricsDeviceCount ?g = 0" "metricsDeviceSupportedCount ?g = 0"
    by (simp_all add: startGlobals_def discovered_def)
  from scan_counts [OF d(1) assms] d show ?thesis
    by simp
qed

lemma device_counters_example:
  "\<exists>g'. scan (startGlobals False False) fiveAdvertisements = Some g'
     \<and> metricsDeviceCount g' = 3 \<and> metricsDeviceSupportedCount g' = 2
     \<and> card (addresses fiveAdvertisements) = 3
     \<and> card (supportedAddresses fiveAdvertisements) = 2"
proof -
  have "scan (startGlobals False False) fiveAdvertisements \<noteq> None"
    by code_simp
  then obtain g' where s: "scan (startGlobals False False) fiveAdvertisements = Some g'"
    by blast
  have c: "card (addresses fiveAdvertisements) = 3" "card (supportedAddresses fiveAdvertisements) = 2"
    by code_simp+
  from device_counters_debug_off [OF s] s c show ?thesis
    by simp
qed

lemma loadNamesCSVFile_failures:
  "loadNamesCSVFile toLower g (OpenError e) = Some (g\<lparr>logged := logged g @ [LogOpenFailed e]\<rparr>)"
  "loadNamesCSVFile toLower g (CsvError e) = Some (g\<lparr>logged := logged g @ [LogParseFailed e]\<rparr>)"
  by (simp_all add: loadNamesCSVFile_def)


text \<open>
  Two runs of the decoder on whole advertisements. The first is the advertisement of an ATC
  thermometer as the radio delivers it. The second is the same advertisement when the slice
  has no spare capacity: line 184 takes \<^verbatim>\<open>advDataLength\<close> bytes after the type byte, one
  more than the element has, so the last element of a well-formed advertisement needs one
  byte of the backing array behind it.
\<close>

lemma decoded_atcAdvertisement:
  "decoded atcAdvertisement = Some \<lparr>ID = 7, Type = 0, Model = ''ATC'', ModelID = 0,
     TemperatureCelcius = 24.4, HumidityPercent = 60, BatteryPercent = 82\<rparr>"
  by code_simp

lemma last_element_needs_slack:
  "parseAdvertisementReportData (atcAdvertisement\<lparr>DataSlack := []\<rparr>) = None"
  by code_simp

text \<open>
  The handler on the ATC advertisement when the names file gave the thermometer a name that
  is the single byte \<^verbatim>\<open>FF\<close>: the first \<^verbatim>\<open>With\<close> panics.
\<close>

lemma handler_panics_on_invalid_name:
  "advScanHandler ((startGlobals False False)\<lparr>namesMap := [''a4:c1:38:d0:2c:ec'' \<mapsto> [CHR 0xFF]]\<rparr>)
     atcAdvertisement 1700000000 1700000000 = None"
  by code_simp

section \<open>The claims\<close>

text \<open>
  C1. The claim: walking the payload never panics; the walker terminates on every input, and a
  declared element length that would read past the end of the buffer is a decode failure for
  that advertisement, not a propagated fault.

  \<open>parseLoop\<close> is total: its termination proof above is the part of the claim that holds, each
  turn moving \<^verbatim>\<open>packetPointer\<close> forward by at least one. The rest does not hold of the code:
  line 184 slices \<^verbatim>\<open>advRawData[packetPointer+2 : packetPointer+advDataLength+2]\<close> with no test
  of the declared length against the buffer, so a truncated frame panics in the decoder, and
  the handler, which has a branch for a decode error, never sees one: the panic goes through
  it. The theorem runs the decoder and the handler on a frame cut after four bytes whose
  element declares ten.
\<close>

theorem C1_truncated_frame_panics:
  "parseAdvertisementReportData truncatedAdvertisement = None
   \<and> advScanHandler g truncatedAdvertisement now1 now2 = None"
proof -
  have "parseAdvertisementReportData truncatedAdvertisement = None"
    by code_simp
  then show ?thesis
    by (simp add: advScanHandler_def)
qed

text \<open>
  C2. The claim: for a service-data element with the Xiaomi signature that passes the length
  gate, the 16-bit model id is decoded big-endian from offsets 4 and 5, the scaled temperature
  and humidity words of the decode table are big-endian signed 16-bit integers divided by 10,
  and every multi-byte integer the decoders read is big-endian.

  In the Xiaomi branch the byte at the higher offset is the one shifted left, as in
  \<^verbatim>\<open>(int(advData[5]) << 8) + int(advData[4])\<close> at line 191 and in lines 200 to 220: the model
  id and the table's words are little-endian, which is why the bytes \<^verbatim>\<open>AA 01\<close> are the model
  \<^verbatim>\<open>0x01AA\<close>. Only the temperature of the ATC branch, line 227, is big-endian. No word is
  read as signed. \<open>C2_counterexample\<close> decodes a LYWSDCGQ frame: the model id is \<^verbatim>\<open>0x01AA\<close>,
  not the big-endian \<^verbatim>\<open>0xAA01\<close>, and the word \<^verbatim>\<open>E7 00\<close> is 23.1 degrees, not the big-endian
  i16 divided by 10. The theorem states the byte order of each word the decoders read, for a
  Xiaomi element \<open>x\<close> and an ATC element \<open>c\<close> as the loop slices them.
\<close>

theorem C2_words_as_the_code_reads_them:
  assumes x: "int (length x) = xLength" "18 \<le> xLength" "x ! 0 = 0x95" "x ! 1 = 0xFE"
    and row: "spec_xiaomiTable (uint (x ! 13)) (uint (x ! 15)) xLength = (t, h, b)"
    and c: "int (length c) = cLength" "16 \<le> cLength" "c ! 0 = 0x1A" "c ! 1 = 0x18"
  shows "map_option ModelID (decodeServiceData s xLength x) = Some (littleEndianU16 x 4)
       \<and> (\<forall>i. t = Some i \<longrightarrow> map_option TemperatureCelcius (decodeServiceData s xLength x)
                               = Some (real_of_int (littleEndianU16 x i) / 10))
       \<and> (\<forall>i. h = Some i \<longrightarrow> map_option HumidityPercent (decodeServiceData s xLength x)
                               = Some (real_of_int (littleEndianU16 x i) / 10))
       \<and> map_option TemperatureCelcius (decodeServiceData s' cLength c)
           = Some (real_of_int (bigEndianU16 c 8) / 10)"
proof -
  have "16 \<le> int (length c)" using c by simp
  then have atc: "map_option TemperatureCelcius (decodeServiceData s' cLength c)
           = Some (real_of_int (bigEndianU16 c 8) / 10)"
    by (simp add: decodeServiceData_atc [OF c] decodeATC_eq)
  have xi: "map_option ModelID (decodeServiceData s xLength x) = Some (littleEndianU16 x 4)"
    "\<And>i. t = Some i \<Longrightarrow> map_option TemperatureCelcius (decodeServiceData s xLength x)
                               = Some (real_of_int (littleEndianU16 x i) / 10)"
    "\<And>i. h = Some i \<Longrightarrow> map_option HumidityPercent (decodeServiceData s xLength x)
                               = Some (real_of_int (littleEndianU16 x i) / 10)"
    by (simp_all add: decodeServiceData_xiaomi_eq [OF x row])
  from atc xi show ?thesis by blast
qed

theorem C2_witness:
  "int (length xiaomiElement) = 21 \<and> xiaomiElement ! 0 = 0x95 \<and> xiaomiElement ! 1 = 0xFE
   \<and> xiaomiElement ! 4 = 0xAA \<and> xiaomiElement ! 5 = 0x01
   \<and> xiaomiElement ! 16 = 0xE7 \<and> xiaomiElement ! 17 = 0x00
   \<and> xiaomiElement ! 18 = 0xF4 \<and> xiaomiElement ! 19 = 0x01
   \<and> spec_xiaomiTable (uint (xiaomiElement ! 13)) (uint (xiaomiElement ! 15)) 21 = (Some 16, Some 18, None)
   \<and> int (length atcElement) = 16 \<and> atcElement ! 0 = 0x1A \<and> atcElement ! 1 = 0x18
   \<and> atcElement ! 8 = 0x00 \<and> atcElement ! 9 = 0xF4
   \<and> map_option ModelID (decodeServiceData newSensorData 21 xiaomiElement) = Some 0x01AA
   \<and> map_option TemperatureCelcius (decodeServiceData newSensorData 21 xiaomiElement) = Some 23.1
   \<and> map_option HumidityPercent (decodeServiceData newSensorData 21 xiaomiElement) = Some 50
   \<and> map_option TemperatureCelcius (decodeServiceData newSensorData 16 atcElement) = Some 24.4"
proof -
  have hx: "int (length xiaomiElement) = 21" "(18::int) \<le> 21"
    "xiaomiElement ! 0 = 0x95" "xiaomiElement ! 1 = 0xFE"
    "spec_xiaomiTable (uint (xiaomiElement ! 13)) (uint (xiaomiElement ! 15)) 21 = (Some 16, Some 18, None)"
    by (simp_all add: xiaomiElement_def spec_xiaomiTable_def)
  have hc: "int (length atcElement) = 16" "(16::int) \<le> 16" "atcElement ! 0 = 0x1A" "atcElement ! 1 = 0x18"
    by (simp_all add: atcElement_def)
  have b: "xiaomiElement ! 4 = 0xAA" "xiaomiElement ! 5 = 0x01"
    "xiaomiElement ! 16 = 0xE7" "xiaomiElement ! 17 = 0x00"
    "xiaomiElement ! 18 = 0xF4" "xiaomiElement ! 19 = 0x01"
    "atcElement ! 8 = 0x00" "atcElement ! 9 = 0xF4"
    by (simp_all add: xiaomiElement_def atcElement_def)
  have v: "littleEndianU16 xiaomiElement 4 = 0x01AA"
    "real_of_int (littleEndianU16 xiaomiElement 16) / 10 = 23.1"
    "real_of_int (littleEndianU16 xiaomiElement 18) / 10 = 50"
    "real_of_int (bigEndianU16 atcElement 8) / 10 = 24.4"
    by (simp_all add: xiaomiElement_def atcElement_def littleEndianU16_def bigEndianU16_def)
  from C2_words_as_the_code_reads_them [OF hx hc, of newSensorData newSensorData] hx hc b v show ?thesis
    by metis
qed

theorem C2_counterexample:
  "map_option ModelID (decoded xiaomiAdvertisement) = Some 0x01AA
   \<and> map_option ModelID (decoded xiaomiAdvertisement)
       \<noteq> Some (bigEndianU16 (elementData (Data xiaomiAdvertisement) (DataSlack xiaomiAdvertisement) 0) 4)
   \<and> map_option TemperatureCelcius (decoded xiaomiAdvertisement) = Some 23.1
   \<and> map_option TemperatureCelcius (decoded xiaomiAdvertisement)
       \<noteq> Some (real_of_int (bigEndianI16
            (elementData (Data xiaomiAdvertisement) (DataSlack xiaomiAdvertisement) 0) 16) / 10)"
  by code_simp

text \<open>
  C3. The claim: over every sequence of advertisements, \<^verbatim>\<open>device_count\<close> and
  \<^verbatim>\<open>device_supported_count\<close> are incremented once per distinct address, at the first
  advertisement of the address, and never again, whatever the debug and verbose flags.

  The program says the same of the two counters: their help texts (lines 62 to 69) are
  \<^verbatim>\<open>The total number of btle devices detected\<close> and
  \<^verbatim>\<open>The total number of supported btle devices detected\<close>. But both increments are inside
  \<^verbatim>\<open>if !discoverMap[addr] || flagDebug\<close> (lines 153 to 169), so with the debug flag the test
  is true at every advertisement and the counters count advertisements. The theorem runs the
  handler in debug mode on the same ATC advertisement twice: one address, and both counters
  are 2. Its last part runs it with debug off on a scan response of the thermometer followed
  by its ATC advertisement: the address is marked as discovered at the scan response, which
  decodes to nothing, and the supported device is never counted. With debug off
  \<^verbatim>\<open>device_count\<close> is right (\<open>device_counters_debug_off\<close>).
\<close>

theorem C3_debug_mode_counts_advertisements:
  "card (addresses twoAdvertisements) = 1
   \<and> map_option metricsDeviceCount (scan (startGlobals False True) twoAdvertisements) = Some 2
   \<and> map_option metricsDeviceSupportedCount (scan (startGlobals False True) twoAdvertisements)
       = Some 2
   \<and> supported atcAdvertisement
   \<and> map_option metricsDeviceSupportedCount
        (scan (startGlobals False False) scanResponseThenAtc) = Some 0"
  by code_simp

text \<open>
  C4. The claim: for a Xiaomi service-data element that passes the signature and length gates,
  each row of the decode table, keyed by frame type, sub-payload length and element length,
  produces exactly the listed fields at the listed offsets with the listed scaling and leaves
  the other fields absent; any other combination yields all three fields absent, the model
  being the classification Error, LYWSDCGQ or Unsupported.

  The code keeps one record for the whole advertisement and each branch assigns only its own
  fields, so a field that a row does not list, and all three fields for a combination that is
  not in the table, keep the value they had before the element: absent when no earlier element
  of the advertisement set them, and not absent otherwise. \<open>C4_counterexample\<close> decodes an
  ATC element followed by a Xiaomi element of frame type \<^verbatim>\<open>07\<close>: the model is LYWSDCGQ and the
  temperature is still the 24.4 of the ATC element. It also decodes a frame of the first row,
  where the word \<^verbatim>\<open>E7 00\<close> at 16 and 17 gives 23.1, not the table's big-endian i16 (see C2).
  The theorem is the table as the code implements it: \<open>spec_xiaomiTable\<close> gives the offsets of
  the row, a listed 16-bit word is read low byte first and unsigned and divided by 10, a listed
  battery byte is taken as it is, and a field that is not listed is left as it was.
\<close>

theorem C4_xiaomi_table:
  assumes len: "int (length advData) = advDataLength" and gate: "18 \<le> advDataLength"
    and sig: "advData ! 0 = 0x95" "advData ! 1 = 0xFE"
    and row: "spec_xiaomiTable (uint (advData ! 13)) (uint (advData ! 15)) advDataLength = (t, h, b)"
  shows "\<exists>r. decodeServiceData s advDataLength advData = Some r
     \<and> Type r = uint (advData ! 13)
     \<and> ModelID r = littleEndianU16 advData 4
     \<and> Model r = spec_xiaomiModel (ModelID r)
     \<and> TemperatureCelcius r = (case t of None \<Rightarrow> TemperatureCelcius s
                                | Some i \<Rightarrow> real_of_int (littleEndianU16 advData i) / 10)
     \<and> HumidityPercent r = (case h of None \<Rightarrow> HumidityPercent s
                             | Some i \<Rightarrow> real_of_int (littleEndianU16 advData i) / 10)
     \<and> BatteryPercent r = (case b of None \<Rightarrow> BatteryPercent s
                            | Some i \<Rightarrow> real_of_int (uint (advData ! i)))
     \<and> (t \<noteq> None \<longrightarrow> TemperatureCelcius r \<noteq> undefinedF)
     \<and> (h \<noteq> None \<longrightarrow> HumidityPercent r \<noteq> undefinedF)
     \<and> (b \<noteq> None \<longrightarrow> BatteryPercent r \<noteq> undefinedF)"
proof -
  define r where "r = s\<lparr>ID := uint (advData ! 6), Type := uint (advData ! 13),
                Model := spec_xiaomiModel (littleEndianU16 advData 4),
                ModelID := littleEndianU16 advData 4,
                TemperatureCelcius :=
                  (case t of None \<Rightarrow> TemperatureCelcius s
                   | Some i \<Rightarrow> real_of_int (littleEndianU16 advData i) / 10),
                HumidityPercent :=
                  (case h of None \<Rightarrow> HumidityPercent s
                   | Some i \<Rightarrow> real_of_int (littleEndianU16 advData i) / 10),
                BatteryPercent :=
                  (case b of None \<Rightarrow> BatteryPercent s
                   | Some i \<Rightarrow> real_of_int (uint (advData ! i)))\<rparr>"
  have d: "decodeServiceData s advDataLength advData = Some r"
    unfolding r_def by (rule decodeServiceData_xiaomi_eq [OF len gate sig row])
  have g: "ModelID r = littleEndianU16 advData 4"
    by (simp add: r_def)
  have f: "Type r = uint (advData ! 13)" "Model r = spec_xiaomiModel (ModelID r)"
    "TemperatureCelcius r = (case t of None \<Rightarrow> TemperatureCelcius s
                                | Some i \<Rightarrow> real_of_int (littleEndianU16 advData i) / 10)"
    "HumidityPercent r = (case h of None \<Rightarrow> HumidityPercent s
                             | Some i \<Rightarrow> real_of_int (littleEndianU16 advData i) / 10)"
    "BatteryPercent r = (case b of None \<Rightarrow> BatteryPercent s
                            | Some i \<Rightarrow> real_of_int (uint (advData ! i)))"
    by (simp_all add: r_def)
  have pt: "t \<noteq> None \<longrightarrow> TemperatureCelcius r \<noteq> undefinedF"
    by (cases t) (simp_all only: f(3) option.case real_tenths_not_undefined [OF littleEndianU16_nonneg]
        not_False_eq_True simp_thms option.distinct)
  have ph: "h \<noteq> None \<longrightarrow> HumidityPercent r \<noteq> undefinedF"
    by (cases h) (simp_all only: f(4) option.case real_tenths_not_undefined [OF littleEndianU16_nonneg]
        not_False_eq_True simp_thms option.distinct)
  have pb: "b \<noteq> None \<longrightarrow> BatteryPercent r \<noteq> undefinedF"
    by (cases b) (simp_all only: f(5) option.case real_byte_not_undefined
        not_False_eq_True simp_thms option.distinct)
  from d g f pt ph pb show ?thesis by blast
qed

theorem C4_witness:
  "int (length xiaomiElement) = 21 \<and> xiaomiElement ! 0 = 0x95 \<and> xiaomiElement ! 1 = 0xFE
   \<and> spec_xiaomiTable (uint (xiaomiElement ! 13)) (uint (xiaomiElement ! 15)) 21 = (Some 16, Some 18, None)
   \<and> (\<exists>r. decodeServiceData newSensorData 21 xiaomiElement = Some r
        \<and> Type r = 0x0D \<and> Model r = ''LYWSDCGQ''
        \<and> TemperatureCelcius r = 23.1 \<and> HumidityPercent r = 50 \<and> BatteryPercent r = undefinedF)"
proof -
  have h: "int (length xiaomiElement) = 21" "(18::int) \<le> 21"
    "xiaomiElement ! 0 = 0x95" "xiaomiElement ! 1 = 0xFE"
    "spec_xiaomiTable (uint (xiaomiElement ! 13)) (uint (xiaomiElement ! 15)) 21 = (Some 16, Some 18, None)"
    by (simp_all add: xiaomiElement_def spec_xiaomiTable_def)
  have v: "uint (xiaomiElement ! 13) = 0x0D"
    "real_of_int (littleEndianU16 xiaomiElement 16) / 10 = 23.1"
    "real_of_int (littleEndianU16 xiaomiElement 18) / 10 = 50"
    "BatteryPercent newSensorData = undefinedF"
    by (simp_all add: xiaomiElement_def littleEndianU16_def newSensorData_def)
  from C4_xiaomi_table [OF h, of newSensorData] obtain r where
    r: "decodeServiceData newSensorData 21 xiaomiElement = Some r"
      "Type r = uint (xiaomiElement ! 13)" "Model r = spec_xiaomiModel (ModelID r)"
      "ModelID r = littleEndianU16 xiaomiElement 4"
      "TemperatureCelcius r = real_of_int (littleEndianU16 xiaomiElement 16) / 10"
      "HumidityPercent r = real_of_int (littleEndianU16 xiaomiElement 18) / 10"
      "BatteryPercent r = BatteryPercent newSensorData"
    by auto
  have m: "spec_xiaomiModel (littleEndianU16 xiaomiElement 4) = ''LYWSDCGQ''"
    by (simp add: spec_xiaomiModel_def littleEndianU16_def xiaomiElement_def)
  from h v r m show ?thesis by metis
qed

theorem C4_counterexample:
  "spec_xiaomiTable 0x07 0x01 18 = (None, None, None)
   \<and> map_option Type (decoded mixedAdvertisement) = Some 0x07
   \<and> map_option Model (decoded mixedAdvertisement) = Some ''LYWSDCGQ''
   \<and> map_option TemperatureCelcius (decoded mixedAdvertisement) = Some 24.4
   \<and> map_option TemperatureCelcius (decoded mixedAdvertisement) \<noteq> Some undefinedF
   \<and> map_option TemperatureCelcius (decoded xiaomiAdvertisement) = Some 23.1
   \<and> map_option TemperatureCelcius (decoded xiaomiAdvertisement)
       \<noteq> Some (real_of_int (bigEndianI16
            (elementData (Data xiaomiAdvertisement) (DataSlack xiaomiAdvertisement) 0) 16) / 10)"
  by code_simp


text \<open>
  C5. The claim: a service-data element with the signature \<^verbatim>\<open>{0x1A, 0x18}\<close> and a length of
  at least 16 is always decoded in full, model ATC, sequence id the byte at 14, temperature the
  big-endian i16 at 8 and 9 divided by 10, humidity the byte at 10, battery the byte at 11, all
  three present; \<^verbatim>\<open>00 F4\<close>, \<^verbatim>\<open>3C\<close>, \<^verbatim>\<open>52\<close> give 24.4, 60 and 82.

  Line 227 adds the two bytes as unsigned numbers, \<^verbatim>\<open>(int(advData[8])<<8)+int(advData[9])\<close>:
  the temperature is the unsigned big-endian word divided by 10, and a word from \<^verbatim>\<open>80 00\<close> up
  is not read as negative. \<open>C5_counterexample\<close> decodes \<^verbatim>\<open>FF F6\<close>, minus one degree as an
  i16, to 6552.6. The rest of the claim holds as it stands: the theorem is the claim with
  the word unsigned, for an element as the loop slices it (its length is the declared length).
\<close>

theorem C5_atc_decoded_in_full:
  assumes "int (length advData) = advDataLength" and "16 \<le> advDataLength"
    and "advData ! 0 = 0x1A" and "advData ! 1 = 0x18"
  shows "\<exists>r. decodeServiceData s advDataLength advData = Some r
           \<and> Model r = ''ATC'' \<and> ID r = uint (advData ! 14)
           \<and> TemperatureCelcius r = real_of_int (bigEndianU16 advData 8) / 10
           \<and> HumidityPercent r = real_of_int (uint (advData ! 10))
           \<and> BatteryPercent r = real_of_int (uint (advData ! 11))
           \<and> TemperatureCelcius r \<noteq> undefinedF \<and> HumidityPercent r \<noteq> undefinedF
           \<and> BatteryPercent r \<noteq> undefinedF"
proof -
  define r where "r = s\<lparr>ID := uint (advData ! 14), Model := ''ATC'',
            TemperatureCelcius := real_of_int (bigEndianU16 advData 8) / 10,
            HumidityPercent := real_of_int (uint (advData ! 10)),
            BatteryPercent := real_of_int (uint (advData ! 11))\<rparr>"
  have "16 \<le> int (length advData)" using assms by simp
  then have d: "decodeServiceData s advDataLength advData = Some r"
    by (simp only: decodeServiceData_atc [OF assms] decodeATC_eq r_def)
  have f: "Model r = ''ATC''" "ID r = uint (advData ! 14)"
    "TemperatureCelcius r = real_of_int (bigEndianU16 advData 8) / 10"
    "HumidityPercent r = real_of_int (uint (advData ! 10))"
    "BatteryPercent r = real_of_int (uint (advData ! 11))"
    by (simp_all add: r_def)
  have p: "TemperatureCelcius r \<noteq> undefinedF" "HumidityPercent r \<noteq> undefinedF"
    "BatteryPercent r \<noteq> undefinedF"
    by (simp_all only: f real_tenths_not_undefined [OF bigEndianU16_nonneg]
        real_byte_not_undefined not_False_eq_True)
  from d f p show ?thesis by blast
qed


theorem C5_witness:
  "int (length atcElement) = 16 \<and> atcElement ! 0 = 0x1A \<and> atcElement ! 1 = 0x18
   \<and> atcElement ! 8 = 0x00 \<and> atcElement ! 9 = 0xF4 \<and> atcElement ! 10 = 0x3C \<and> atcElement ! 11 = 0x52
   \<and> (\<exists>r. decodeServiceData newSensorData 16 atcElement = Some r
           \<and> Model r = ''ATC'' \<and> ID r = 7
           \<and> TemperatureCelcius r = 24.4 \<and> HumidityPercent r = 60 \<and> BatteryPercent r = 82
           \<and> TemperatureCelcius r \<noteq> undefinedF \<and> HumidityPercent r \<noteq> undefinedF
           \<and> BatteryPercent r \<noteq> undefinedF)"
proof -
  have h: "int (length atcElement) = 16" "(16::int) \<le> 16" "atcElement ! 0 = 0x1A" "atcElement ! 1 = 0x18"
    by (simp_all add: atcElement_def)
  have v: "uint (atcElement ! 14) = 7" "real_of_int (bigEndianU16 atcElement 8) / 10 = 24.4"
    "real_of_int (uint (atcElement ! 10)) = 60" "real_of_int (uint (atcElement ! 11)) = 82"
    "atcElement ! 8 = 0x00" "atcElement ! 9 = 0xF4" "atcElement ! 10 = 0x3C" "atcElement ! 11 = 0x52"
    by (simp_all add: atcElement_def bigEndianU16_def)
  from C5_atc_decoded_in_full [OF h, of newSensorData] h v show ?thesis
    by metis
qed


theorem C5_counterexample:
  "map_option TemperatureCelcius (decoded atcFrostAdvertisement) = Some 6552.6
   \<and> map_option TemperatureCelcius (decoded atcFrostAdvertisement)
       \<noteq> Some (real_of_int (bigEndianI16
            (elementData (Data atcFrostAdvertisement) (DataSlack atcFrostAdvertisement) 0) 8) / 10)"
  by code_simp

text \<open>
  C6. A service-data element whose payload starts with \<^verbatim>\<open>{0x95, 0xFE}\<close> and whose length is
  below 18 leaves the record as it was, so a model that was Unknown stays Unknown and does not
  become Error: the length is tested before any byte of the element is read. The walk then
  goes on with the next element. The element is one the loop visits, and the slice of line 184
  is within the capacity of the buffer (C1 is about the slice that is not).
\<close>

theorem C6_short_xiaomi_element_is_skipped:
  assumes visited: "0 \<le> packetPointer" "packetPointer < int (length advRawData) - 1"
    and service: "uint (advRawData ! nat (packetPointer + 1)) = 0x16"
    and short: "uint (advRawData ! nat packetPointer) < 18"
    and inside: "packetPointer + uint (advRawData ! nat packetPointer) + 2
                   \<le> int (length advRawData + length slack)"
    and sig: "elementData advRawData slack packetPointer ! 0 = 0x95"
             "elementData advRawData slack packetPointer ! 1 = 0xFE"
  shows "loopBody advRawData slack sensorData packetPointer
           = Some (sensorData, packetPointer + uint (advRawData ! nat packetPointer) + 1)
       \<and> parseLoop advRawData slack sensorData packetPointer
           = parseLoop advRawData slack sensorData
               (packetPointer + uint (advRawData ! nat packetPointer) + 1)"
proof -
  have len: "int (length (elementData advRawData slack packetPointer))
               = uint (advRawData ! nat packetPointer)"
    using visited(1) inside by (rule length_elementData)
  have body: "loopBody advRawData slack sensorData packetPointer
           = Some (sensorData, packetPointer + uint (advRawData ! nat packetPointer) + 1)"
    by (simp add: loopBody_eq [OF visited inside] service
        decodeServiceData_short [OF len short sig(1)])
  have "parseLoop advRawData slack sensorData packetPointer
           = parseLoop advRawData slack sensorData
               (packetPointer + uint (advRawData ! nat packetPointer) + 1)"
    by (subst parseLoop.simps) (simp add: visited(2) body)
  with body show ?thesis by simp
qed

theorem C6_witness:
  "(0::int) \<le> 0 \<and> 0 < int (length (Data shortXiaomiAdvertisement)) - 1
   \<and> uint (Data shortXiaomiAdvertisement ! nat (0 + 1)) = 0x16
   \<and> uint (Data shortXiaomiAdvertisement ! nat 0) = 5
   \<and> elementData (Data shortXiaomiAdvertisement) (DataSlack shortXiaomiAdvertisement) 0 ! 0 = 0x95
   \<and> elementData (Data shortXiaomiAdvertisement) (DataSlack shortXiaomiAdvertisement) 0 ! 1 = 0xFE
   \<and> loopBody (Data shortXiaomiAdvertisement) (DataSlack shortXiaomiAdvertisement) newSensorData 0
           = Some (newSensorData, 6)
   \<and> Model newSensorData = ''Unknown''
   \<and> parseLoop (Data shortXiaomiAdvertisement) (DataSlack shortXiaomiAdvertisement) newSensorData 0
       = parseLoop (Data shortXiaomiAdvertisement) (DataSlack shortXiaomiAdvertisement) newSensorData 6
   \<and> map_option Model (decoded shortXiaomiAdvertisement) = Some ''ATC''"
proof -
  let ?raw = "Data shortXiaomiAdvertisement" and ?slack = "DataSlack shortXiaomiAdvertisement"
  have l: "uint (?raw ! nat 0) = 5"
    by (simp add: shortXiaomiAdvertisement_def)
  have h: "(0::int) \<le> 0" "0 < int (length ?raw) - 1"
    "uint (?raw ! nat (0 + 1)) = 0x16"
    "uint (?raw ! nat 0) < 18"
    "0 + uint (?raw ! nat 0) + 2 \<le> int (length ?raw + length ?slack)"
    "elementData ?raw ?slack 0 ! 0 = 0x95"
    "elementData ?raw ?slack 0 ! 1 = 0xFE"
    by (simp_all add: shortXiaomiAdvertisement_def elementData_def)
  have m: "Model newSensorData = ''Unknown''"
    by (simp add: newSensorData_def)
  have n: "map_option Model (decoded shortXiaomiAdvertisement) = Some ''ATC''"
    by code_simp
  from C6_short_xiaomi_element_is_skipped [OF h, of newSensorData] h l m n show ?thesis
    by simp
qed


text \<open>
  C7. When the handler has processed an advertisement, each of the three gauge vectors is
  what it was before if the decoded field is the absent value \<^verbatim>\<open>undefined\<close>: nothing is
  written, no child is made, and no gauge is set to the absent value. If the field is present,
  the gauge of the label set (address, name, model) holds the field's value and the other
  gauges of the vector are as before. A present field belongs to a record whose model is not
  Unknown (\<open>decoded_absentWhenUnknown\<close>), so it is published whenever the handler returns.
\<close>

theorem C7_absent_fields_are_not_published:
  assumes "advScanHandler g a now1 now2 = Some g'"
  shows "\<exists>sd. decoded a = Some sd
     \<and> (TemperatureCelcius sd = undefinedF \<longrightarrow>
          metricsDeviceTemperatureGauge g' = metricsDeviceTemperatureGauge g)
     \<and> (TemperatureCelcius sd \<noteq> undefinedF \<longrightarrow>
          metricsDeviceTemperatureGauge g' = (metricsDeviceTemperatureGauge g)
            ((Addr a, getMacName g (Addr a), Model sd) \<mapsto> TemperatureCelcius sd))
     \<and> (HumidityPercent sd = undefinedF \<longrightarrow>
          metricsDeviceHumidityGauge g' = metricsDeviceHumidityGauge g)
     \<and> (HumidityPercent sd \<noteq> undefinedF \<longrightarrow>
          metricsDeviceHumidityGauge g' = (metricsDeviceHumidityGauge g)
            ((Addr a, getMacName g (Addr a), Model sd) \<mapsto> HumidityPercent sd))
     \<and> (BatteryPercent sd = undefinedF \<longrightarrow>
          metricsDeviceBatteryGauge g' = metricsDeviceBatteryGauge g)
     \<and> (BatteryPercent sd \<noteq> undefinedF \<longrightarrow>
          metricsDeviceBatteryGauge g' = (metricsDeviceBatteryGauge g)
            ((Addr a, getMacName g (Addr a), Model sd) \<mapsto> BatteryPercent sd))"
proof -
  from assms obtain sd where p: "parseAdvertisementReportData a = Some (Some sd, None)"
    and d: "decoded a = Some sd"
    by (rule handler_parses)
  from d have u: "absentWhenUnknown sd"
    by (rule decoded_absentWhenUnknown)
  have t: "TemperatureCelcius sd = undefinedF \<longrightarrow>
          metricsDeviceTemperatureGauge g' = metricsDeviceTemperatureGauge g"
    "HumidityPercent sd = undefinedF \<longrightarrow>
          metricsDeviceHumidityGauge g' = metricsDeviceHumidityGauge g"
    "BatteryPercent sd = undefinedF \<longrightarrow>
          metricsDeviceBatteryGauge g' = metricsDeviceBatteryGauge g"
    by (simp_all add: handler_gauges [OF assms p] published_gauges)
  have n: "TemperatureCelcius sd \<noteq> undefinedF \<longrightarrow>
          metricsDeviceTemperatureGauge g' = (metricsDeviceTemperatureGauge g)
            ((Addr a, getMacName g (Addr a), Model sd) \<mapsto> TemperatureCelcius sd)"
    "HumidityPercent sd \<noteq> undefinedF \<longrightarrow>
          metricsDeviceHumidityGauge g' = (metricsDeviceHumidityGauge g)
            ((Addr a, getMacName g (Addr a), Model sd) \<mapsto> HumidityPercent sd)"
    "BatteryPercent sd \<noteq> undefinedF \<longrightarrow>
          metricsDeviceBatteryGauge g' = (metricsDeviceBatteryGauge g)
            ((Addr a, getMacName g (Addr a), Model sd) \<mapsto> BatteryPercent sd)"
    using u by (auto simp: handler_gauges [OF assms p] published_gauges absentWhenUnknown_def)
  from d t n show ?thesis by blast
qed


theorem C7_witness:
  "\<exists>g'. advScanHandler (startGlobals False False) xiaomiAdvertisement 1700000000 1700000000 = Some g'
     \<and> map_option TemperatureCelcius (decoded xiaomiAdvertisement) = Some 23.1
     \<and> map_option BatteryPercent (decoded xiaomiAdvertisement) = Some undefinedF
     \<and> metricsDeviceTemperatureGauge g' (''4c:65:a8:d0:2c:ec'', [], ''LYWSDCGQ'') = Some 23.1
     \<and> metricsDeviceBatteryGauge g' = metricsDeviceBatteryGauge (startGlobals False False)"
proof -
  let ?g = "startGlobals False False"
  have "advScanHandler ?g xiaomiAdvertisement 1700000000 1700000000 \<noteq> None"
    by code_simp
  then obtain g' where h: "advScanHandler ?g xiaomiAdvertisement 1700000000 1700000000 = Some g'"
    by blast
  have v: "map_option TemperatureCelcius (decoded xiaomiAdvertisement) = Some 23.1"
    "map_option BatteryPercent (decoded xiaomiAdvertisement) = Some undefinedF"
    "map_option Model (decoded xiaomiAdvertisement) = Some ''LYWSDCGQ''"
    by code_simp+
  have e: "Addr xiaomiAdvertisement = ''4c:65:a8:d0:2c:ec''"
    "getMacName ?g ''4c:65:a8:d0:2c:ec'' = []" "(23.1::real) \<noteq> undefinedF"
    by (simp_all add: xiaomiAdvertisement_def getMacName_def startGlobals_def undefinedF_def)
  from C7_absent_fields_are_not_published [OF h] obtain sd where
    d: "decoded xiaomiAdvertisement = Some sd"
    and t: "TemperatureCelcius sd \<noteq> undefinedF \<longrightarrow>
          metricsDeviceTemperatureGauge g' = (metricsDeviceTemperatureGauge ?g)
            ((Addr xiaomiAdvertisement, getMacName ?g (Addr xiaomiAdvertisement), Model sd)
               \<mapsto> TemperatureCelcius sd)"
    and b: "BatteryPercent sd = undefinedF \<longrightarrow>
          metricsDeviceBatteryGauge g' = metricsDeviceBatteryGauge ?g"
    by blast
  from v have sv: "TemperatureCelcius sd = 23.1" "BatteryPercent sd = undefinedF"
    "Model sd = ''LYWSDCGQ''"
    unfolding d by (simp_all only: option.map option.inject)
  from t e(3) have "metricsDeviceTemperatureGauge g' = (metricsDeviceTemperatureGauge ?g)
            ((''4c:65:a8:d0:2c:ec'', [], ''LYWSDCGQ'') \<mapsto> 23.1)"
    unfolding sv e(1,2) by blast
  then have "metricsDeviceTemperatureGauge g' (''4c:65:a8:d0:2c:ec'', [], ''LYWSDCGQ'') = Some 23.1"
    by (simp only: fun_upd_same)
  moreover from b sv(2) have "metricsDeviceBatteryGauge g' = metricsDeviceBatteryGauge ?g"
    by blast
  ultimately show ?thesis using h v by blast
qed

text \<open>
  C8. The device state tracker is the test \<^verbatim>\<open>!discoverMap[addr] || flagDebug\<close> of line 153
  and the assignment \<^verbatim>\<open>discoverMap[addr] = true\<close> of line 167. With debug off, for an address
  that has not been logged, the test is true when the handler is called, and after the call
  it is false for any advertisement of the same address.
\<close>

theorem C8_first_true_then_false:
  assumes "\<not> flagDebug g" and "\<not> discovered g (Addr a)"
    and "advScanHandler g a now1 now2 = Some g'" and "Addr a' = Addr a"
  shows "shouldEmitDetailedLog g a \<and> \<not> shouldEmitDetailedLog g' a'"
  using assms handler_tracker [OF assms(3)]
  by (simp add: shouldEmitDetailedLog_def)

theorem C8_witness:
  "\<not> flagDebug (startGlobals False False)
   \<and> \<not> discovered (startGlobals False False) (Addr atcAdvertisement)
   \<and> (\<exists>g'. advScanHandler (startGlobals False False) atcAdvertisement 1700000000 1700000000 = Some g'
         \<and> shouldEmitDetailedLog (startGlobals False False) atcAdvertisement
         \<and> \<not> shouldEmitDetailedLog g' atcAdvertisement)"
proof -
  let ?g = "startGlobals False False"
  have f: "\<not> flagDebug ?g" "\<not> discovered ?g (Addr atcAdvertisement)"
    by (simp_all add: startGlobals_def discovered_def)
  have "advScanHandler ?g atcAdvertisement 1700000000 1700000000 \<noteq> None"
    by code_simp
  then obtain g' where h: "advScanHandler ?g atcAdvertisement 1700000000 1700000000 = Some g'"
    by blast
  from C8_first_true_then_false [OF f h refl] f h show ?thesis
    by blast
qed


text \<open>
  C9. The claim: the loader of the names file never crashes the process; a missing or malformed
  file, rows without two columns included, gives an empty directory and a diagnostic.

  A file that does not open and a file the CSV reader rejects are handled so
  (\<open>loadNamesCSVFile_failures\<close>). But the reader, with its default settings, accepts a file whose
  rows all have one column, and line 320 then reads \<^verbatim>\<open>line[1]\<close>: the index is out of range,
  and the panic ends the process during start-up. The theorem runs the loader on the records
  of a file with the single line \<^verbatim>\<open>a4:c1:38:d0:2c:ec\<close>.
\<close>

theorem C9_one_column_names_file_panics:
  "loadNamesCSVFile toLower g (CsvLines [[''a4:c1:38:d0:2c:ec'']]) = None"
  by (simp add: loadNamesCSVFile_def goIndex_def)




end
